theory Spec2Isabelle
  imports Main "HOL-Library.Multiset"
begin

section \<open>Data model (types.ts)\<close>

datatype AdminRole = ADMIN | SUPERADMIN

text \<open>
  The interface \<open>AdminUser\<close>: the identity that login signs into the token and that
  the token gate attaches to the request. The field \<open>id\<close> is \<open>admin_id\<close> here and
  \<open>email\<close> is \<open>admin_email\<close> (the first is a HOL constant, the second a column below).
\<close>

record AdminUser =
  admin_id :: nat
  admin_email :: string
  role :: AdminRole
  clubId :: string

section \<open>The record store\<close>

text \<open>
  One record per table, one field per column the server reads or writes; the column
  \<open>t.c\<close> is the field \<open>t_c\<close>. A table is the list of its rows in insertion order.
\<close>

record users_row =
  users_id :: nat
  users_email :: string
  users_password_hash :: string
  users_is_superadmin :: bool

record club_admins_row =
  club_admins_user_id :: nat
  club_admins_club_id :: string
  club_admins_role :: string

record team_members_row =
  team_members_id :: nat
  team_members_club_id :: string
  team_members_name :: string
  team_members_role :: string
  team_members_grade :: string
  team_members_bio :: string
  team_members_photo_url :: "string option"

record gallery_events_row =
  gallery_events_id :: nat
  gallery_events_club_id :: string
  gallery_events_title :: string
  gallery_events_images :: "string list"

record news_articles_row =
  news_articles_id :: nat
  news_articles_club_id :: string
  news_articles_title :: string
  news_articles_author :: string
  news_articles_content :: string
  news_articles_image_url :: "string option"
  news_articles_created_at :: nat

record blog_posts_row =
  blog_posts_id :: nat
  blog_posts_club_id :: string
  blog_posts_title :: string
  blog_posts_author :: string
  blog_posts_excerpt :: string
  blog_posts_content :: string
  blog_posts_image_url :: "string option"
  blog_posts_created_at :: nat

record application_forms_row =
  application_forms_url :: string
  application_forms_fileName :: string
  application_forms_updatedAt :: nat

text \<open>
  The state behind \<open>pool\<close>. \<open>next_id\<close> is the value the store hands out as
  \<open>insertId\<close> on the next insert; one counter stands for the counters of all tables,
  which id a row gets being the store's choice.
\<close>

record database =
  users :: "users_row list"
  club_admins :: "club_admins_row list"
  team_members :: "team_members_row list"
  gallery_events :: "gallery_events_row list"
  news_articles :: "news_articles_row list"
  blog_posts :: "blog_posts_row list"
  application_forms :: "application_forms_row list"
  next_id :: nat

text \<open>
  What a call of a handler can throw: the store's refusal of a duplicate key, and the
  \<open>Illegal arguments\<close> error with which \<open>bcrypt.compare\<close> rejects when the password it
  is given is not a string.
\<close>

datatype thrown = ER_DUP_ENTRY | Illegal_arguments

section \<open>Libraries and configuration\<close>

text \<open>
  \<open>bcryptjs\<close>, \<open>jsonwebtoken\<close> and the store's comparison of an integer column with a
  string taken from the path are not code of the server: they are parameters.
  \<open>bcrypt_hash p\<close> is \<open>bcrypt.hash(p, 10)\<close> (for the salt this run draws),
  \<open>bcrypt_compare p h\<close> is \<open>bcrypt.compare(p, h)\<close>, \<open>jwt_sign u k\<close> is
  \<open>jwt.sign(u, k)\<close>, \<open>jwt_verify t k\<close> is \<open>jwt.verify(t, k)\<close> with \<open>None\<close> for a
  throw, and \<open>sql_id_eq n s\<close> is the store's \<open>id = ?\<close> with \<open>?\<close> bound to \<open>s\<close>.
\<close>

record externals =
  bcrypt_hash :: "string \<Rightarrow> string"
  bcrypt_compare :: "string \<Rightarrow> string \<Rightarrow> bool"
  jwt_sign :: "AdminUser \<Rightarrow> string \<Rightarrow> string"
  jwt_verify :: "string \<Rightarrow> string \<Rightarrow> AdminUser option"
  sql_id_eq :: "nat \<Rightarrow> string \<Rightarrow> bool"

text \<open>The variables of \<open>process.env\<close> that the server reads.\<close>

record process_env =
  env_JWT_SECRET :: "string option"
  env_SUPERADMIN_EMAIL :: "string option"
  env_SUPERADMIN_PASSWORD :: "string option"

text \<open>\<open>v || d\<close> on a string that may be undefined: the empty string is falsy too.\<close>

definition or_default :: "string option \<Rightarrow> string \<Rightarrow> string" where
  "or_default v d = (case v of None \<Rightarrow> d | Some s \<Rightarrow> if s = [] then d else s)"

definition JWT_SECRET :: "process_env \<Rightarrow> string" where
  "JWT_SECRET env = or_default (env_JWT_SECRET env) ''your_default_secret''"

section \<open>Requests and responses\<close>

text \<open>
  What a handler reads of a request: the authorization header, the identity the token
  gate attached, the path parameter (each route has at most one), the names under which
  the upload middleware stored the request's files, the clock, and the body. The body's
  type is the tuple of fields the route's handler destructures, each a string: a
  request that leaves one of them out is not described by this record. The password of
  a login is the exception: it is \<open>Some p\<close> for a string \<open>p\<close> and \<open>None\<close> when the
  body has no password or one that is not a string.
\<close>

record 'b request =
  authorization :: "string option"
  user :: "AdminUser option"
  param :: string
  files :: "string list"
  now :: nat
  body :: 'b

datatype payload =
    Text string
  | Empty
  | Json_login AdminUser string
  | Json_team_members "team_members_row list"
  | Json_team_member nat "string \<times> string \<times> string \<times> string" "string option"
  | Json_gallery_events "gallery_events_row list"
  | Json_gallery_event nat string "string list"
  | Json_news_articles "news_articles_row list"
  | Json_news_article "news_articles_row option"
  | Json_blog_posts "blog_posts_row list"
  | Json_blog_post "blog_posts_row option"
  | Json_admins "AdminUser list"
  | Json_admin AdminUser
  | Json_application_form application_forms_row

text \<open>
  \<open>Response s p\<close> is a response sent with status \<open>s\<close>; \<open>Rejected e\<close> is a handler
  in which a call threw \<open>e\<close>: no handler catches, so the handler's promise rejects and
  it sends no response.
\<close>

datatype response = Response nat payload | Rejected thrown

text \<open>
  A middleware either sends a response, which ends the request (\<open>Inl\<close>), or calls
  \<open>next()\<close> with the request as it left it (\<open>Inr\<close>). A route runs its middlewares in
  the order of registration and then its handler.
\<close>

type_synonym 'b middleware = "'b request \<Rightarrow> response + 'b request"

type_synonym 'b handler = "database \<Rightarrow> 'b request \<Rightarrow> database \<times> response"

fun route :: "'b middleware list \<Rightarrow> 'b handler \<Rightarrow> 'b handler" where
  "route [] h db req = h db req"
| "route (m # ms) h db req =
     (case m req of Inl res \<Rightarrow> (db, res) | Inr req' \<Rightarrow> route ms h db req')"

section \<open>Authentication\<close>

text \<open>\<open>s.split(' ')\<close>: the fields between single spaces, empty ones included.\<close>

fun split_space :: "string \<Rightarrow> string list" where
  "split_space [] = [[]]"
| "split_space (c # cs) =
     (if c = CHR '' '' then [] # split_space cs
      else (case split_space cs of [] \<Rightarrow> [[c]] | w # ws \<Rightarrow> (c # w) # ws))"

text \<open>\<open>req.headers.authorization?.split(' ')[1]\<close>, \<open>None\<close> for undefined.\<close>

definition header_token :: "string option \<Rightarrow> string option" where
  "header_token h =
     (case h of None \<Rightarrow> None
      | Some s \<Rightarrow> (case split_space s of a # t # ts \<Rightarrow> Some t | _ \<Rightarrow> None))"

definition authMiddleware :: "externals \<Rightarrow> process_env \<Rightarrow> 'b middleware" where
  "authMiddleware ext env req =
     (case header_token (authorization req) of
        None \<Rightarrow> Inl (Response 401 (Text ''Access denied. No token provided.''))
      | Some token \<Rightarrow>
          if token = [] then Inl (Response 401 (Text ''Access denied. No token provided.''))
          else (case jwt_verify ext token (JWT_SECRET env) of
                  Some decoded \<Rightarrow> Inr (req\<lparr>user := Some decoded\<rparr>)
                | None \<Rightarrow> Inl (Response 400 (Text ''Invalid token.''))))"

definition superadminMiddleware :: "'b middleware" where
  "superadminMiddleware req =
     (if map_option role (user req) \<noteq> Some SUPERADMIN
      then Inl (Response 403 (Text ''Forbidden. Superadmin access required.''))
      else Inr req)"

text \<open>
  \<open>upload.single\<close> and \<open>upload.array\<close> (multer, a library): the request is a
  multipart request whose files the middleware accepted and stored, their names are in
  \<open>files\<close> already, and the middleware passes the request on. The uploads that the
  library itself refuses are not described.
\<close>

definition upload :: "'b middleware" where
  "upload req = Inr req"

text \<open>
  \<open>POST /api/login\<close>. The rows of \<open>SELECT * FROM users WHERE email = ?\<close> are the rows
  with that email, in table order. The handler passes \<open>req.body.password\<close> to
  \<open>bcrypt.compare\<close> as it came, and only once a row was found: a password that is not a
  string makes the call reject there, while for an email with no row the handler has
  answered 400 before.
\<close>

definition login :: "externals \<Rightarrow> process_env \<Rightarrow> (string \<times> string option) handler" where
  "login ext env db req =
     (let (email, password) = body req;
          users' = filter (\<lambda>u. users_email u = email) (users db)
      in case users' of
           [] \<Rightarrow> (db, Response 400 (Text ''Invalid email or password.''))
         | user' # _ \<Rightarrow>
             (case password of
                None \<Rightarrow> (db, Rejected Illegal_arguments)
              | Some password' \<Rightarrow>
                  if \<not> bcrypt_compare ext password' (users_password_hash user')
                  then (db, Response 400 (Text ''Invalid email or password.''))
                  else
                    let role' = (if users_is_superadmin user' then SUPERADMIN else ADMIN);
                        adminData =
                          (if role' = ADMIN
                           then filter (\<lambda>c. club_admins_user_id c = users_id user')
                                  (club_admins db)
                           else []);
                        clubId' = (case adminData of [] \<Rightarrow> ''*''
                                   | c # _ \<Rightarrow> club_admins_club_id c);
                        userPayload = \<lparr>admin_id = users_id user', admin_email = users_email user',
                                       role = role', clubId = clubId'\<rparr>;
                        token = jwt_sign ext userPayload (JWT_SECRET env)
                    in (db, Response 200 (Json_login userPayload token))))"

section \<open>Bootstrap\<close>

text \<open>
  Modelled from the spec: the schema of the \<open>users\<close> table is not among the sources.
  The spec's data model gives an Account a unique email, so an insert whose email is
  already stored throws; otherwise the row is appended under the next id.
\<close>

definition insert_users :: "database \<Rightarrow> string \<Rightarrow> string \<Rightarrow> bool \<Rightarrow> thrown + nat \<times> database" where
  "insert_users db email password_hash is_superadmin =
     (if email \<in> set (map users_email (users db)) then Inl ER_DUP_ENTRY
      else Inr (next_id db,
                db\<lparr>users := users db @
                       [\<lparr>users_id = next_id db, users_email = email,
                         users_password_hash = password_hash,
                         users_is_superadmin = is_superadmin\<rparr>],
                   next_id := Suc (next_id db)\<rparr>))"

text \<open>
  \<open>initializeDatabase\<close>, from the query for superadmins on. \<open>Inl\<close> is the throw that
  \<open>startServer\<close> catches to exit the process.
\<close>

definition initializeDatabase :: "externals \<Rightarrow> process_env \<Rightarrow> database \<Rightarrow> thrown + database" where
  "initializeDatabase ext env db =
     (let superAdmins = filter users_is_superadmin (users db)
      in if length superAdmins = 0
         then
           let email = or_default (env_SUPERADMIN_EMAIL env) ''superadmin@example.com'';
               password = or_default (env_SUPERADMIN_PASSWORD env) ''password123'';
               hashedPassword = bcrypt_hash ext password
           in (case insert_users db email hashedPassword True of
                 Inl e \<Rightarrow> Inl e
               | Inr (insertId, db') \<Rightarrow> Inr db')
         else Inr db)"

section \<open>Content handlers\<close>

text \<open>\<open>ORDER BY k DESC\<close>; the store leaves the order of rows with equal keys open.\<close>

definition order_by_desc :: "('a \<Rightarrow> nat) \<Rightarrow> 'a list \<Rightarrow> 'a list" where
  "order_by_desc k rows = rev (sort_key k rows)"

text \<open>\<open>req.file ? `/uploads/${req.file.filename}` : null\<close>\<close>

definition file_url :: "'b request \<Rightarrow> string option" where
  "file_url req = (case files req of [] \<Rightarrow> None | f # _ \<Rightarrow> Some (''/uploads/'' @ f))"

definition get_team :: "'b handler" where
  "get_team db req =
     (db, Response 200 (Json_team_members
        (filter (\<lambda>m. team_members_club_id m = param req) (team_members db))))"

definition post_team :: "(string \<times> string \<times> string \<times> string) handler" where
  "post_team db req =
     (let (name, role', grade, bio) = body req;
          photoUrl = file_url req;
          insertId = next_id db
      in (db\<lparr>team_members := team_members db @
               [\<lparr>team_members_id = insertId, team_members_club_id = param req,
                 team_members_name = name, team_members_role = role',
                 team_members_grade = grade, team_members_bio = bio,
                 team_members_photo_url = photoUrl\<rparr>],
             next_id := Suc insertId\<rparr>,
          Response 201 (Json_team_member insertId (body req) photoUrl)))"

definition get_gallery :: "'b handler" where
  "get_gallery db req =
     (db, Response 200 (Json_gallery_events
        (filter (\<lambda>e. gallery_events_club_id e = param req) (gallery_events db))))"

definition post_gallery :: "string handler" where
  "post_gallery db req =
     (let title = body req;
          imageUrls = map (\<lambda>f. ''/uploads/'' @ f) (files req);
          insertId = next_id db
      in (db\<lparr>gallery_events := gallery_events db @
               [\<lparr>gallery_events_id = insertId, gallery_events_club_id = param req,
                 gallery_events_title = title, gallery_events_images = imageUrls\<rparr>],
             next_id := Suc insertId\<rparr>,
          Response 201 (Json_gallery_event insertId title imageUrls)))"

text \<open>
  The handlers that insert news and blog posts give no \<open>created_at\<close>: the store fills
  it in with the time of the insert, the request's \<open>now\<close>.
\<close>

definition get_news :: "'b handler" where
  "get_news db req =
     (db, Response 200 (Json_news_articles
        (order_by_desc news_articles_created_at
           (filter (\<lambda>a. news_articles_club_id a = param req) (news_articles db)))))"

definition post_news :: "(string \<times> string \<times> string) handler" where
  "post_news db req =
     (let (title, author, content) = body req;
          imageUrl = file_url req;
          insertId = next_id db;
          db' = db\<lparr>news_articles := news_articles db @
                     [\<lparr>news_articles_id = insertId, news_articles_club_id = param req,
                       news_articles_title = title, news_articles_author = author,
                       news_articles_content = content, news_articles_image_url = imageUrl,
                       news_articles_created_at = now req\<rparr>],
                   next_id := Suc insertId\<rparr>;
          newArticle = filter (\<lambda>a. news_articles_id a = insertId) (news_articles db')
      in (db', Response 201 (Json_news_article
                               (case newArticle of [] \<Rightarrow> None | a # _ \<Rightarrow> Some a))))"

definition get_blogs :: "'b handler" where
  "get_blogs db req =
     (db, Response 200 (Json_blog_posts
        (order_by_desc blog_posts_created_at
           (filter (\<lambda>p. blog_posts_club_id p = param req) (blog_posts db)))))"

definition post_blogs :: "(string \<times> string \<times> string \<times> string) handler" where
  "post_blogs db req =
     (let (title, author, excerpt, content) = body req;
          imageUrl = file_url req;
          insertId = next_id db;
          db' = db\<lparr>blog_posts := blog_posts db @
                     [\<lparr>blog_posts_id = insertId, blog_posts_club_id = param req,
                       blog_posts_title = title, blog_posts_author = author,
                       blog_posts_excerpt = excerpt, blog_posts_content = content,
                       blog_posts_image_url = imageUrl,
                       blog_posts_created_at = now req\<rparr>],
                   next_id := Suc insertId\<rparr>;
          newPost = filter (\<lambda>p. blog_posts_id p = insertId) (blog_posts db')
      in (db', Response 201 (Json_blog_post
                               (case newPost of [] \<Rightarrow> None | p # _ \<Rightarrow> Some p))))"

text \<open>The path's club id is read and not used: the newest form of all is served.\<close>

definition get_application :: "'b handler" where
  "get_application db req =
     (let forms = take 1 (order_by_desc application_forms_updatedAt (application_forms db))
      in case forms of
           [] \<Rightarrow> (db, Response 404 (Text ''Application form not found.''))
         | f # _ \<Rightarrow> (db, Response 200 (Json_application_form f)))"

section \<open>Admin handlers\<close>

text \<open>
  \<open>users u LEFT JOIN club_admins ca ON u.id = ca.user_id\<close>: a user with no binding
  gives one row with a null club id. \<open>u.club_id || '*'\<close> takes the empty string for
  null as well.
\<close>

definition left_join_club_admins :: "database \<Rightarrow> (users_row \<times> string option) list" where
  "left_join_club_admins db =
     concat (map (\<lambda>u. case filter (\<lambda>c. club_admins_user_id c = users_id u) (club_admins db) of
                         [] \<Rightarrow> [(u, None)]
                       | cs \<Rightarrow> map (\<lambda>c. (u, Some (club_admins_club_id c))) cs)
                 (users db))"

definition get_admins :: "'b handler" where
  "get_admins db req =
     (let admins = map (\<lambda>(u, club_id).
                      \<lparr>admin_id = users_id u, admin_email = users_email u,
                        role = (if users_is_superadmin u then SUPERADMIN else ADMIN),
                        clubId = or_default club_id ''*''\<rparr>)
                    (left_join_club_admins db)
      in (db, Response 200 (Json_admins admins)))"

definition post_admins :: "externals \<Rightarrow> (string \<times> string) handler" where
  "post_admins ext db req =
     (let (email, clubId') = body req;
          tempPassword = ''password123'';
          hashedPassword = bcrypt_hash ext tempPassword
      in case insert_users db email hashedPassword False of
           Inl e \<Rightarrow> (db, Rejected e)
         | Inr (newUserId, db') \<Rightarrow>
             (db'\<lparr>club_admins := club_admins db' @
                    [\<lparr>club_admins_user_id = newUserId, club_admins_club_id = clubId',
                      club_admins_role = ''ADMIN''\<rparr>]\<rparr>,
              Response 201 (Json_admin \<lparr>admin_id = newUserId, admin_email = email,
                                        role = ADMIN, clubId = clubId'\<rparr>)))"

text \<open>
  \<open>DELETE FROM users WHERE id = ? AND is_superadmin = FALSE\<close>, with the cascade to
  \<open>club_admins\<close> that the handler's comment relies on.
\<close>

definition delete_admins :: "externals \<Rightarrow> 'b handler" where
  "delete_admins ext db req =
     (let adminId = param req;
          deleted = filter (\<lambda>u. sql_id_eq ext (users_id u) adminId \<and> \<not> users_is_superadmin u)
                      (users db)
      in (db\<lparr>users := filter (\<lambda>u. \<not> (sql_id_eq ext (users_id u) adminId \<and>
                                       \<not> users_is_superadmin u)) (users db),
             club_admins := filter (\<lambda>c. club_admins_user_id c \<notin> set (map users_id deleted))
                              (club_admins db)\<rparr>,
          Response 204 Empty))"

section \<open>Routes\<close>

definition POST_login :: "externals \<Rightarrow> process_env \<Rightarrow> (string \<times> string option) handler" where
  "POST_login ext env = route [] (login ext env)"

definition GET_clubs_team :: "'b handler" where
  "GET_clubs_team = route [] get_team"

definition POST_clubs_team ::
  "externals \<Rightarrow> process_env \<Rightarrow> (string \<times> string \<times> string \<times> string) handler" where
  "POST_clubs_team ext env = route [authMiddleware ext env, upload] post_team"

definition GET_clubs_gallery :: "'b handler" where
  "GET_clubs_gallery = route [] get_gallery"

definition POST_clubs_gallery :: "externals \<Rightarrow> process_env \<Rightarrow> string handler" where
  "POST_clubs_gallery ext env = route [authMiddleware ext env, upload] post_gallery"

definition GET_clubs_news :: "'b handler" where
  "GET_clubs_news = route [] get_news"

definition POST_clubs_news ::
  "externals \<Rightarrow> process_env \<Rightarrow> (string \<times> string \<times> string) handler" where
  "POST_clubs_news ext env = route [authMiddleware ext env, upload] post_news"

definition GET_clubs_blogs :: "'b handler" where
  "GET_clubs_blogs = route [] get_blogs"

definition POST_clubs_blogs ::
  "externals \<Rightarrow> process_env \<Rightarrow> (string \<times> string \<times> string \<times> string) handler" where
  "POST_clubs_blogs ext env = route [authMiddleware ext env, upload] post_blogs"

definition GET_admins :: "externals \<Rightarrow> process_env \<Rightarrow> 'b handler" where
  "GET_admins ext env = route [authMiddleware ext env, superadminMiddleware] get_admins"

definition POST_admins :: "externals \<Rightarrow> process_env \<Rightarrow> (string \<times> string) handler" where
  "POST_admins ext env =
     route [authMiddleware ext env, superadminMiddleware] (post_admins ext)"

definition DELETE_admins :: "externals \<Rightarrow> process_env \<Rightarrow> 'b handler" where
  "DELETE_admins ext env =
     route [authMiddleware ext env, superadminMiddleware] (delete_admins ext)"

definition GET_clubs_application :: "'b handler" where
  "GET_clubs_application = route [] get_application"

section \<open>A reference instance of the libraries\<close>

text \<open>
  An instance of \<open>externals\<close> that computes, used to evaluate the server on concrete
  requests: the hash of \<open>p\<close> is \<open>$p\<close>, a token is the key and the fields of the identity
  written one after the other, each string behind its length in unary, and a path
  string equals an id when it is that id's decimal numeral.
\<close>

fun enc_nat :: "nat \<Rightarrow> string" where
  "enc_nat 0 = ''0''"
| "enc_nat (Suc n) = CHR ''1'' # enc_nat n"

fun dec_nat :: "string \<Rightarrow> (nat \<times> string) option" where
  "dec_nat [] = None"
| "dec_nat (c # cs) =
     (if c = CHR ''0'' then Some (0, cs)
      else if c = CHR ''1'' then map_option (\<lambda>(n, r). (Suc n, r)) (dec_nat cs)
      else None)"

definition enc_string :: "string \<Rightarrow> string" where
  "enc_string s = enc_nat (length s) @ s"

definition dec_string :: "string \<Rightarrow> (string \<times> string) option" where
  "dec_string t =
     (case dec_nat t of
        None \<Rightarrow> None
      | Some (n, r) \<Rightarrow> if length r < n then None else Some (take n r, drop n r))"

definition ref_sign :: "AdminUser \<Rightarrow> string \<Rightarrow> string" where
  "ref_sign u k =
     enc_string k @ (if role u = SUPERADMIN then ''S'' else ''A'') @ enc_nat (admin_id u) @
     enc_string (admin_email u) @ enc_string (clubId u)"

definition ref_verify :: "string \<Rightarrow> string \<Rightarrow> AdminUser option" where
  "ref_verify t k =
     (case dec_string t of
        Some (k', c # r) \<Rightarrow>
          if k' \<noteq> k \<or> (c \<noteq> CHR ''S'' \<and> c \<noteq> CHR ''A'') then None
          else (case dec_nat r of
                  Some (i, r') \<Rightarrow>
                    (case dec_string r' of
                       Some (e, r'') \<Rightarrow>
                         (case dec_string r'' of
                            Some (cl, []) \<Rightarrow>
                              Some \<lparr>admin_id = i, admin_email = e,
                                    role = (if c = CHR ''S'' then SUPERADMIN else ADMIN),
                                    clubId = cl\<rparr>
                          | _ \<Rightarrow> None)
                     | None \<Rightarrow> None)
                | None \<Rightarrow> None)
      | _ \<Rightarrow> None)"

fun decimal :: "nat \<Rightarrow> string \<Rightarrow> nat option" where
  "decimal a [] = Some a"
| "decimal a (c # cs) =
     (let d = (of_char c :: nat)
      in if 48 \<le> d \<and> d \<le> 57 then decimal (10 * a + (d - 48)) cs else None)"

definition ref_ext :: externals where
  "ref_ext =
     \<lparr>bcrypt_hash = (\<lambda>p. CHR ''$'' # p),
      bcrypt_compare = (\<lambda>p h. h = CHR ''$'' # p),
      jwt_sign = ref_sign,
      jwt_verify = ref_verify,
      sql_id_eq = (\<lambda>n s. s \<noteq> [] \<and> decimal 0 s = Some n)\<rparr>"

definition ref_env :: process_env where
  "ref_env = \<lparr>env_JWT_SECRET = Some ''k'', env_SUPERADMIN_EMAIL = None,
              env_SUPERADMIN_PASSWORD = None\<rparr>"

text \<open>
  A store with the bootstrap superadmin, one admin bound to club \<open>A\<close> and one admin
  with no binding.
\<close>

definition ref_db :: database where
  "ref_db =
     \<lparr>users =
        [\<lparr>users_id = 1, users_email = ''superadmin@example.com'',
          users_password_hash = ''$password123'', users_is_superadmin = True\<rparr>,
         \<lparr>users_id = 2, users_email = ''a@x.com'',
          users_password_hash = ''$secret'', users_is_superadmin = False\<rparr>,
         \<lparr>users_id = 3, users_email = ''c@x.com'',
          users_password_hash = ''$orphan'', users_is_superadmin = False\<rparr>],
      club_admins =
        [\<lparr>club_admins_user_id = 2, club_admins_club_id = ''A'', club_admins_role = ''ADMIN''\<rparr>],
      team_members = [], gallery_events = [], news_articles = [], blog_posts = [],
      application_forms = [], next_id = 4\<rparr>"

definition ref_request :: "string option \<Rightarrow> string \<Rightarrow> 'b \<Rightarrow> 'b request" where
  "ref_request h p b =
     \<lparr>authorization = h, user = None, param = p, files = [], now = 0, body = b\<rparr>"

text \<open>The identities of the first two accounts, and the tokens login signs for them.\<close>

definition adminA :: AdminUser where
  "adminA = \<lparr>admin_id = 2, admin_email = ''a@x.com'', role = ADMIN, clubId = ''A''\<rparr>"

definition tokenA :: string where
  "tokenA = ''10kA11011111110a@x.com10A''"

definition superadmin1 :: AdminUser where
  "superadmin1 = \<lparr>admin_id = 1, admin_email = ''superadmin@example.com'',
                   role = SUPERADMIN, clubId = ''*''\<rparr>"

definition tokenS :: string where
  "tokenS = ''10kS1011111111111111111111110superadmin@example.com10*''"

text \<open>The rows of the two regular admins.\<close>

definition ref_account :: users_row where
  "ref_account = \<lparr>users_id = 2, users_email = ''a@x.com'',
          users_password_hash = ''$secret'', users_is_superadmin = False\<rparr>"

definition ref_orphan :: users_row where
  "ref_orphan = \<lparr>users_id = 3, users_email = ''c@x.com'',
          users_password_hash = ''$orphan'', users_is_superadmin = False\<rparr>"

text \<open>An empty store, the store after its first start, and the superadmin's row.\<close>

definition ref_fresh_db :: database where
  "ref_fresh_db = \<lparr>users = [], club_admins = [], team_members = [], gallery_events = [],
                    news_articles = [], blog_posts = [], application_forms = [], next_id = 1\<rparr>"

definition ref_booted_db :: database where
  "ref_booted_db = ref_fresh_db\<lparr>users :=
       [\<lparr>users_id = 1, users_email = ''superadmin@example.com'',
         users_password_hash = ''$password123'', users_is_superadmin = True\<rparr>],
     next_id := 2\<rparr>"

definition ref_root :: users_row where
  "ref_root = \<lparr>users_id = 1, users_email = ''superadmin@example.com'',
          users_password_hash = ''$password123'', users_is_superadmin = True\<rparr>"

text \<open>A store with content, and the row a request studied below adds.\<close>

definition ref_member :: team_members_row where
  "ref_member = \<lparr>team_members_id = 4, team_members_club_id = ''A'',
     team_members_name = ''Ann'', team_members_role = ''President'',
     team_members_grade = ''12'', team_members_bio = ''bio'',
     team_members_photo_url = None\<rparr>"

definition ref_form_old :: application_forms_row where
  "ref_form_old = \<lparr>application_forms_url = ''/uploads/1-form.pdf'',
     application_forms_fileName = ''form.pdf'', application_forms_updatedAt = 10\<rparr>"

definition ref_form_new :: application_forms_row where
  "ref_form_new = \<lparr>application_forms_url = ''/uploads/2-form.pdf'',
     application_forms_fileName = ''form.pdf'', application_forms_updatedAt = 20\<rparr>"

definition ref_content_db :: database where
  "ref_content_db = ref_db\<lparr>team_members := [ref_member],
     application_forms := [ref_form_old, ref_form_new], next_id := 5\<rparr>"

definition ref_member_B :: team_members_row where
  "ref_member_B = \<lparr>team_members_id = 4, team_members_club_id = ''B'',
     team_members_name = ''Eve'', team_members_role = ''Member'',
     team_members_grade = ''9'', team_members_bio = ''bio'',
     team_members_photo_url = None\<rparr>"

section \<open>Facts about the reference instance\<close>

lemma split_space_no_space: "CHR '' '' \<notin> set t \<Longrightarrow> split_space t = [t]"
  by (induction t) auto

lemma header_token_Bearer:
  "CHR '' '' \<notin> set t \<Longrightarrow> header_token (Some (''Bearer '' @ t)) = Some t"
  by (simp add: header_token_def split_space_no_space)

lemma dec_enc_nat: "dec_nat (enc_nat n @ r) = Some (n, r)"
  by (induction n) auto

lemma dec_enc_string: "dec_string (enc_string s @ r) = Some (s, r)"
  by (simp add: dec_string_def enc_string_def dec_enc_nat)

lemma dec_enc_string_end: "dec_string (enc_string s) = Some (s, [])"
  using dec_enc_string [of s "[]"] by simp

lemma ref_verify_sign: "ref_verify (ref_sign u k) k = Some u"
proof (cases "role u")
  case ADMIN
  then have "ref_verify (ref_sign u k) k = Some (u\<lparr>role := ADMIN\<rparr>)"
    by (cases u) (simp add: ref_verify_def ref_sign_def dec_enc_string dec_enc_nat dec_enc_string_end)
  with ADMIN show ?thesis by (cases u) simp
next
  case SUPERADMIN
  then show ?thesis
    by (cases u) (simp add: ref_verify_def ref_sign_def dec_enc_string dec_enc_nat dec_enc_string_end)
qed

lemma JWT_SECRET_ref: "JWT_SECRET ref_env = ''k''"
  by (simp add: JWT_SECRET_def ref_env_def or_default_def)

lemma ref_ext_simps:
  "bcrypt_hash ref_ext p = CHR ''$'' # p"
  "bcrypt_compare ref_ext p h \<longleftrightarrow> h = CHR ''$'' # p"
  "jwt_sign ref_ext = ref_sign"
  "jwt_verify ref_ext = ref_verify"
  "sql_id_eq ref_ext n s \<longleftrightarrow> s \<noteq> [] \<and> decimal 0 s = Some n"
  by (simp_all add: ref_ext_def)

lemma ref_request_simps:
  "authorization (ref_request h p b) = h"
  "user (ref_request h p b) = None"
  "param (ref_request h p b) = p"
  "files (ref_request h p b) = []"
  "now (ref_request h p b) = 0"
  "body (ref_request h p b) = b"
  by (simp_all add: ref_request_def)

lemma tokenA: "ref_sign adminA ''k'' = tokenA"
  by (simp add: ref_sign_def adminA_def enc_string_def tokenA_def eval_nat_numeral)

lemma verify_tokenA: "ref_verify tokenA ''k'' = Some adminA"
  using ref_verify_sign [of adminA "''k''"] by (simp add: tokenA)

lemma header_tokenA: "header_token (Some (''Bearer '' @ tokenA)) = Some tokenA"
  by (simp add: header_token_def tokenA_def)

lemma tokenA_not_empty: "tokenA \<noteq> []"
  by (simp add: tokenA_def)

lemma tokenS: "ref_sign superadmin1 ''k'' = tokenS"
  by (simp add: ref_sign_def superadmin1_def enc_string_def tokenS_def eval_nat_numeral)

lemma verify_tokenS: "ref_verify tokenS ''k'' = Some superadmin1"
  using ref_verify_sign [of superadmin1 "''k''"] by (simp add: tokenS)

lemma header_tokenS: "header_token (Some (''Bearer '' @ tokenS)) = Some tokenS"
  by (simp add: header_token_def tokenS_def)

lemma tokenS_not_empty: "tokenS \<noteq> []"
  by (simp add: tokenS_def)

lemma ref_db_users_distinct: "distinct (map users_email (users ref_db))"
  by (simp add: ref_db_def)

lemma ref_roundtrip:
  "\<forall>p. jwt_verify ref_ext (jwt_sign ref_ext p (JWT_SECRET ref_env)) (JWT_SECRET ref_env) = Some p"
  by (simp add: ref_ext_simps ref_verify_sign)

lemma sql_id_eq_ref_2: "sql_id_eq ref_ext 2 ''2''"
  by (simp add: ref_ext_simps)

lemma sql_id_eq_ref_1: "sql_id_eq ref_ext n ''1'' \<longleftrightarrow> n = 1"
  by (auto simp: ref_ext_simps)

lemma ref_gate_tokenS:
  "header_token (authorization (ref_request (Some (''Bearer '' @ tokenS)) p b)) = Some tokenS \<and>
   tokenS \<noteq> [] \<and>
   jwt_verify ref_ext tokenS (JWT_SECRET ref_env) = Some superadmin1 \<and>
   role superadmin1 = SUPERADMIN"
  using header_tokenS
  by (simp add: ref_request_simps tokenS_not_empty ref_ext_simps
      JWT_SECRET_ref verify_tokenS superadmin1_def)

lemma ref_verify_tokenA: "jwt_verify ref_ext tokenA (JWT_SECRET ref_env) = Some adminA"
  by (simp add: ref_ext_simps JWT_SECRET_ref verify_tokenA)

lemma ref_verify_tokenS: "jwt_verify ref_ext tokenS (JWT_SECRET ref_env) = Some superadmin1"
  by (simp add: ref_ext_simps JWT_SECRET_ref verify_tokenS)

lemmas ref_gate_tokenA_facts = header_tokenA tokenA_not_empty ref_verify_tokenA

lemmas ref_gate_tokenS_facts = header_tokenS tokenS_not_empty ref_verify_tokenS

section \<open>Properties of the token gate\<close>

lemma authMiddleware_accepts:
  assumes "header_token (authorization req) = Some t" and "t \<noteq> []"
    and "jwt_verify ext t (JWT_SECRET env) = Some u"
  shows "authMiddleware ext env req = Inr (req\<lparr>user := Some u\<rparr>)"
  using assms by (simp add: authMiddleware_def)

lemma authMiddleware_no_token:
  assumes "header_token (authorization req) = None \<or> header_token (authorization req) = Some []"
  shows "authMiddleware ext env req =
         Inl (Response 401 (Text ''Access denied. No token provided.''))"
  using assms by (auto simp: authMiddleware_def)

lemma authMiddleware_invalid:
  assumes "header_token (authorization req) = Some t" and "t \<noteq> []"
    and "jwt_verify ext t (JWT_SECRET env) = None"
  shows "authMiddleware ext env req = Inl (Response 400 (Text ''Invalid token.''))"
  using assms by (simp add: authMiddleware_def)

text \<open>
  Claim C5. The token gate answers 401 when the authorization header is absent, and
  also when the header has no second space-separated field or an empty one (the
  credential the gate reads; the scheme word before it is not compared with
  \<open>Bearer\<close>). It answers 400 when the credential is there and verification fails.
  When verification succeeds it sends nothing, attaches the decoded identity to the
  request and passes the request on. A header \<open>Bearer t\<close> with no space in \<open>t\<close>
  carries the credential \<open>t\<close>.
\<close>

theorem authMiddleware_gate:
  "(authorization req = None \<longrightarrow>
      authMiddleware ext env req =
      Inl (Response 401 (Text ''Access denied. No token provided.'')))
   \<and> (header_token (authorization req) = None \<or> header_token (authorization req) = Some [] \<longrightarrow>
      authMiddleware ext env req =
      Inl (Response 401 (Text ''Access denied. No token provided.'')))
   \<and> (\<forall>t. header_token (authorization req) = Some t \<and> t \<noteq> [] \<and>
          jwt_verify ext t (JWT_SECRET env) = None \<longrightarrow>
          authMiddleware ext env req = Inl (Response 400 (Text ''Invalid token.'')))
   \<and> (\<forall>t u. header_token (authorization req) = Some t \<and> t \<noteq> [] \<and>
          jwt_verify ext t (JWT_SECRET env) = Some u \<longrightarrow>
          authMiddleware ext env req = Inr (req\<lparr>user := Some u\<rparr>))
   \<and> (\<forall>t. CHR '' '' \<notin> set t \<longrightarrow> header_token (Some (''Bearer '' @ t)) = Some t)"
proof (intro conjI allI impI)
  assume "authorization req = None"
  then have "header_token (authorization req) = None"
    by (simp add: header_token_def)
  then show "authMiddleware ext env req =
      Inl (Response 401 (Text ''Access denied. No token provided.''))"
    by (simp add: authMiddleware_no_token)
next
  assume "header_token (authorization req) = None \<or> header_token (authorization req) = Some []"
  then show "authMiddleware ext env req =
      Inl (Response 401 (Text ''Access denied. No token provided.''))"
    by (rule authMiddleware_no_token)
next
  fix t
  assume "header_token (authorization req) = Some t \<and> t \<noteq> [] \<and>
          jwt_verify ext t (JWT_SECRET env) = None"
  then show "authMiddleware ext env req = Inl (Response 400 (Text ''Invalid token.''))"
    by (simp add: authMiddleware_invalid)
next
  fix t u
  assume "header_token (authorization req) = Some t \<and> t \<noteq> [] \<and>
          jwt_verify ext t (JWT_SECRET env) = Some u"
  then show "authMiddleware ext env req = Inr (req\<lparr>user := Some u\<rparr>)"
    by (simp add: authMiddleware_accepts)
next
  fix t :: string
  assume "CHR '' '' \<notin> set t"
  then show "header_token (Some (''Bearer '' @ t)) = Some t"
    by (rule header_token_Bearer)
qed

theorem authMiddleware_gate_witness:
  "authMiddleware ref_ext ref_env (ref_request None ''B'' ()) =
     Inl (Response 401 (Text ''Access denied. No token provided.''))
   \<and> authMiddleware ref_ext ref_env (ref_request (Some ''Bearer'') ''B'' ()) =
     Inl (Response 401 (Text ''Access denied. No token provided.''))
   \<and> authMiddleware ref_ext ref_env (ref_request (Some ''Bearer junk'') ''B'' ()) =
     Inl (Response 400 (Text ''Invalid token.''))
   \<and> authMiddleware ref_ext ref_env (ref_request (Some (''Bearer '' @ tokenA)) ''B'' ()) =
     Inr ((ref_request (Some (''Bearer '' @ tokenA)) ''B'' ())\<lparr>user := Some adminA\<rparr>)"
proof (intro conjI)
  show "authMiddleware ref_ext ref_env (ref_request None ''B'' ()) =
     Inl (Response 401 (Text ''Access denied. No token provided.''))"
    using authMiddleware_gate [of "ref_request None ''B'' ()" ref_ext ref_env]
    by (simp add: ref_request_simps)
next
  have "header_token (Some ''Bearer'') = None"
    by (simp add: header_token_def)
  then show "authMiddleware ref_ext ref_env (ref_request (Some ''Bearer'') ''B'' ()) =
     Inl (Response 401 (Text ''Access denied. No token provided.''))"
    using authMiddleware_gate [of "ref_request (Some ''Bearer'') ''B'' ()" ref_ext ref_env]
    by (simp add: ref_request_simps)
next
  have "header_token (Some ''Bearer junk'') = Some ''junk''"
    by (simp add: header_token_def)
  moreover have "ref_verify ''junk'' ''k'' = None"
    by (simp add: ref_verify_def dec_string_def)
  ultimately show "authMiddleware ref_ext ref_env (ref_request (Some ''Bearer junk'') ''B'' ()) =
     Inl (Response 400 (Text ''Invalid token.''))"
    using authMiddleware_gate [of "ref_request (Some ''Bearer junk'') ''B'' ()" ref_ext ref_env]
    by (simp add: ref_request_simps ref_ext_simps JWT_SECRET_ref)
next
  have "header_token (Some (''Bearer '' @ tokenA)) = Some tokenA"
    by (simp add: header_token_def tokenA_def)
  moreover have "tokenA \<noteq> []"
    by (simp add: tokenA_def)
  ultimately show
    "authMiddleware ref_ext ref_env (ref_request (Some (''Bearer '' @ tokenA)) ''B'' ()) =
     Inr ((ref_request (Some (''Bearer '' @ tokenA)) ''B'' ())\<lparr>user := Some adminA\<rparr>)"
    using authMiddleware_gate [of "ref_request (Some (''Bearer '' @ tokenA)) ''B'' ()"
        ref_ext ref_env] verify_tokenA
    by (simp add: ref_request_simps ref_ext_simps JWT_SECRET_ref)
qed

section \<open>Properties of the superadmin gate\<close>

lemma route_auth_fails:
  assumes "authMiddleware ext env req = Inl res"
  shows "route (authMiddleware ext env # ms) h db req = (db, res)"
  using assms by simp

lemma route_forbidden:
  assumes "authMiddleware ext env req = Inr req'"
    and "map_option role (user req') \<noteq> Some SUPERADMIN"
  shows "route [authMiddleware ext env, superadminMiddleware] h db req =
         (db, Response 403 (Text ''Forbidden. Superadmin access required.''))"
  using assms by (simp add: superadminMiddleware_def)

lemma route_superadmin:
  assumes "authMiddleware ext env req = Inr req'"
    and "map_option role (user req') = Some SUPERADMIN"
  shows "route [authMiddleware ext env, superadminMiddleware] h db req = h db req'"
  using assms by (simp add: superadminMiddleware_def)

text \<open>
  Claim C4. On a route guarded by the token gate and then the superadmin gate, a
  request the token gate refuses gets the token gate's answer: the superadmin gate
  and the handler do not run. A request whose token verifies to an identity with a
  role other than SUPERADMIN (a valid ADMIN token) gets 403 and leaves the store as it
  was, whatever the handler \<open>h\<close> behind the gates is, so \<open>h\<close> is not reached. The
  gate alone answers 403 whenever the attached identity is missing or not a
  superadmin. \<open>GET_admins\<close>, \<open>POST_admins\<close> and \<open>DELETE_admins\<close> are such routes.
\<close>

theorem superadminMiddleware_gate:
  "(\<forall>res. authMiddleware ext env req = Inl res \<longrightarrow>
      route [authMiddleware ext env, superadminMiddleware] h db req = (db, res))
   \<and> (\<forall>t u. header_token (authorization req) = Some t \<and> t \<noteq> [] \<and>
          jwt_verify ext t (JWT_SECRET env) = Some u \<and> role u \<noteq> SUPERADMIN \<longrightarrow>
          route [authMiddleware ext env, superadminMiddleware] h db req =
          (db, Response 403 (Text ''Forbidden. Superadmin access required.'')))
   \<and> (map_option role (user req) \<noteq> Some SUPERADMIN \<longrightarrow>
        superadminMiddleware req =
        Inl (Response 403 (Text ''Forbidden. Superadmin access required.'')))"
proof (intro conjI allI impI)
  fix res
  assume "authMiddleware ext env req = Inl res"
  then show "route [authMiddleware ext env, superadminMiddleware] h db req = (db, res)"
    by (rule route_auth_fails)
next
  fix t u
  assume a: "header_token (authorization req) = Some t \<and> t \<noteq> [] \<and>
          jwt_verify ext t (JWT_SECRET env) = Some u \<and> role u \<noteq> SUPERADMIN"
  then have "authMiddleware ext env req = Inr (req\<lparr>user := Some u\<rparr>)"
    by (simp add: authMiddleware_accepts)
  moreover from a have "map_option role (user (req\<lparr>user := Some u\<rparr>)) \<noteq> Some SUPERADMIN"
    by simp
  ultimately show "route [authMiddleware ext env, superadminMiddleware] h db req =
          (db, Response 403 (Text ''Forbidden. Superadmin access required.''))"
    by (rule route_forbidden)
next
  assume "map_option role (user req) \<noteq> Some SUPERADMIN"
  then show "superadminMiddleware req =
        Inl (Response 403 (Text ''Forbidden. Superadmin access required.''))"
    by (simp add: superadminMiddleware_def)
qed

theorem superadminMiddleware_gate_witness:
  "DELETE_admins ref_ext ref_env ref_db (ref_request None ''2'' ()) =
     (ref_db, Response 401 (Text ''Access denied. No token provided.''))
   \<and> DELETE_admins ref_ext ref_env ref_db (ref_request (Some (''Bearer '' @ tokenA)) ''2'' ()) =
     (ref_db, Response 403 (Text ''Forbidden. Superadmin access required.''))
   \<and> superadminMiddleware (ref_request None ''2'' ()) =
     Inl (Response 403 (Text ''Forbidden. Superadmin access required.''))"
proof (intro conjI)
  let ?r = "ref_request None ''2'' ()"
  have "authMiddleware ref_ext ref_env ?r =
      Inl (Response 401 (Text ''Access denied. No token provided.''))"
    by (simp add: authMiddleware_no_token header_token_def ref_request_simps)
  then show "DELETE_admins ref_ext ref_env ref_db ?r =
     (ref_db, Response 401 (Text ''Access denied. No token provided.''))"
    using superadminMiddleware_gate [of ref_ext ref_env ?r "delete_admins ref_ext" ref_db]
    by (simp add: DELETE_admins_def)
next
  let ?r = "ref_request (Some (''Bearer '' @ tokenA)) ''2'' ()"
  have "role adminA \<noteq> SUPERADMIN"
    by (simp add: adminA_def)
  then show "DELETE_admins ref_ext ref_env ref_db ?r =
     (ref_db, Response 403 (Text ''Forbidden. Superadmin access required.''))"
    using superadminMiddleware_gate [of ref_ext ref_env ?r "delete_admins ref_ext" ref_db]
      header_tokenA tokenA_not_empty verify_tokenA
    unfolding DELETE_admins_def
    by (simp add: ref_request_simps ref_ext_simps JWT_SECRET_ref)
next
  show "superadminMiddleware (ref_request None ''2'' ()) =
     Inl (Response 403 (Text ''Forbidden. Superadmin access required.''))"
    using superadminMiddleware_gate [of ref_ext ref_env "ref_request None ''2'' ()"]
    by (simp add: ref_request_simps)
qed

text \<open>The three account-management routes, with a verified token that is not a superadmin's.\<close>

lemma admin_routes_forbidden:
  assumes "header_token a = Some t" and "t \<noteq> []"
    and "jwt_verify ext t (JWT_SECRET env) = Some u" and "role u \<noteq> SUPERADMIN"
  shows "authorization r1 = a \<Longrightarrow> GET_admins ext env db r1 =
           (db, Response 403 (Text ''Forbidden. Superadmin access required.''))"
    and "authorization r2 = a \<Longrightarrow> POST_admins ext env db r2 =
           (db, Response 403 (Text ''Forbidden. Superadmin access required.''))"
    and "authorization r3 = a \<Longrightarrow> DELETE_admins ext env db r3 =
           (db, Response 403 (Text ''Forbidden. Superadmin access required.''))"
proof -
  have gate: "authMiddleware ext env r = Inr (r\<lparr>user := Some u\<rparr>)"
    if "authorization r = a" for r :: "'x request"
    using that assms(1-3) by (intro authMiddleware_accepts [where t = t]) simp_all
  have no: "map_option role (user (r\<lparr>user := Some u\<rparr>)) \<noteq> Some SUPERADMIN"
    for r :: "'x request"
    using assms(4) by simp
  show "authorization r1 = a \<Longrightarrow> GET_admins ext env db r1 =
           (db, Response 403 (Text ''Forbidden. Superadmin access required.''))"
    unfolding GET_admins_def by (rule route_forbidden [OF gate no])
  show "authorization r2 = a \<Longrightarrow> POST_admins ext env db r2 =
           (db, Response 403 (Text ''Forbidden. Superadmin access required.''))"
    unfolding POST_admins_def by (rule route_forbidden [OF gate no])
  show "authorization r3 = a \<Longrightarrow> DELETE_admins ext env db r3 =
           (db, Response 403 (Text ''Forbidden. Superadmin access required.''))"
    unfolding DELETE_admins_def by (rule route_forbidden [OF gate no])
qed

section \<open>Properties of login\<close>

lemma POST_login_login: "POST_login ext env db req = login ext env db req"
  by (simp add: POST_login_def)

lemma filter_distinct_email:
  "distinct (map users_email us) \<Longrightarrow> acct \<in> set us \<Longrightarrow>
   filter (\<lambda>u. users_email u = users_email acct) us = [acct]"
proof (induction us)
  case Nil
  then show ?case by simp
next
  case (Cons a us)
  show ?case
  proof (cases "a = acct")
    case True
    with Cons.prems have "\<forall>u\<in>set us. users_email u \<noteq> users_email acct"
      by (auto simp: image_iff)
    then have "filter (\<lambda>u. users_email u = users_email acct) us = []"
      by (simp add: filter_empty_conv)
    with True show ?thesis by simp
  next
    case False
    with Cons.prems have "acct \<in> set us" by simp
    with Cons.prems have "users_email a \<noteq> users_email acct"
      by (auto simp: image_iff)
    with Cons \<open>acct \<in> set us\<close> show ?thesis by simp
  qed
qed

text \<open>What login answers once the row it compares against is known.\<close>

lemma login_selected:
  assumes "filter (\<lambda>u. users_email u = email) (users db) = acct # rest"
    and "body req = (email, Some password)"
  shows "login ext env db req =
     (if \<not> bcrypt_compare ext password (users_password_hash acct)
      then (db, Response 400 (Text ''Invalid email or password.''))
      else
        let scope = (if users_is_superadmin acct then ''*''
                     else (case filter (\<lambda>c. club_admins_user_id c = users_id acct) (club_admins db) of
                             [] \<Rightarrow> ''*'' | c # _ \<Rightarrow> club_admins_club_id c));
            p = \<lparr>admin_id = users_id acct, admin_email = users_email acct,
                 role = (if users_is_superadmin acct then SUPERADMIN else ADMIN),
                 clubId = scope\<rparr>
        in (db, Response 200 (Json_login p (jwt_sign ext p (JWT_SECRET env)))))"
  using assms by (simp add: login_def Let_def)

lemma login_not_a_string:
  assumes "filter (\<lambda>u. users_email u = email) (users db) = acct # rest"
    and "body req = (email, None)"
  shows "login ext env db req = (db, Rejected Illegal_arguments)"
  using assms by (simp add: login_def)

lemma login_unknown_email:
  assumes "filter (\<lambda>u. users_email u = email) (users db) = []"
    and "body req = (email, password)"
  shows "login ext env db req = (db, Response 400 (Text ''Invalid email or password.''))"
  using assms by (simp add: login_def)

text \<open>
  Claim C2. In a store whose emails are unique (the spec's data model), a login with
  the email of a stored account and a password that \<open>bcrypt.compare\<close> accepts for its
  hash succeeds with status 200, and the token it returns decodes (with a library whose
  \<open>verify\<close> inverts \<open>sign\<close> under the server's key) to the account's id and email
  with role SUPERADMIN when the account's flag is set and ADMIN otherwise.
\<close>

theorem login_role_matches_flag:
  assumes "acct \<in> set (users db)"
    and "distinct (map users_email (users db))"
    and "bcrypt_compare ext password (users_password_hash acct)"
    and "body req = (users_email acct, Some password)"
    and "\<forall>p. jwt_verify ext (jwt_sign ext p (JWT_SECRET env)) (JWT_SECRET env) = Some p"
  shows "\<exists>identity token decoded.
           login ext env db req = (db, Response 200 (Json_login identity token))
           \<and> jwt_verify ext token (JWT_SECRET env) = Some decoded
           \<and> role decoded = (if users_is_superadmin acct then SUPERADMIN else ADMIN)
           \<and> admin_id decoded = users_id acct
           \<and> admin_email decoded = users_email acct"
proof -
  from assms(1,2) have "filter (\<lambda>u. users_email u = users_email acct) (users db) = [acct]"
    by (simp add: filter_distinct_email)
  from login_selected [OF this assms(4), of ext env] assms(3,5)
  show ?thesis
    by (simp add: Let_def)
qed

theorem login_role_matches_flag_witness:
  "\<exists>identity token decoded.
     login ref_ext ref_env ref_db (ref_request None [] (''a@x.com'', Some ''secret'')) =
       (ref_db, Response 200 (Json_login identity token))
     \<and> jwt_verify ref_ext token (JWT_SECRET ref_env) = Some decoded
     \<and> role decoded = ADMIN"
proof -
  have "ref_account \<in> set (users ref_db)"
    by (simp add: ref_db_def ref_account_def)
  moreover have "bcrypt_compare ref_ext ''secret'' (users_password_hash ref_account)"
    by (simp add: ref_ext_simps ref_account_def)
  moreover have "body (ref_request None [] (''a@x.com'', Some ''secret'')) =
      (users_email ref_account, Some ''secret'')"
    by (simp add: ref_request_simps ref_account_def)
  ultimately show ?thesis
    using login_role_matches_flag [of ref_account ref_db ref_ext "''secret''"
        "ref_request None [] (''a@x.com'', Some ''secret'')" ref_env]
      ref_db_users_distinct ref_roundtrip
    by (auto simp: ref_account_def)
qed

text \<open>
  Where the two failures of login do agree: a string password that matches no stored
  account of an existing email, and any attempt with an email that no account has, get
  the same response, status 400 with the body \<open>Invalid email or password.\<close>, and the
  store is unchanged.
\<close>

lemma login_string_password_failures:
  assumes "\<exists>u\<in>set (users db). users_email u = email1"
    and "\<forall>u\<in>set (users db). users_email u = email1 \<longrightarrow>
           \<not> bcrypt_compare ext password1 (users_password_hash u)"
    and "\<forall>u\<in>set (users db). users_email u \<noteq> email2"
    and "body req1 = (email1, Some password1)"
    and "body req2 = (email2, password2)"
  shows "login ext env db req1 = (db, Response 400 (Text ''Invalid email or password.''))
       \<and> login ext env db req2 = (db, Response 400 (Text ''Invalid email or password.''))
       \<and> snd (login ext env db req1) = snd (login ext env db req2)"
proof -
  from assms(1) obtain acct rest
    where sel: "filter (\<lambda>u. users_email u = email1) (users db) = acct # rest"
    by (cases "filter (\<lambda>u. users_email u = email1) (users db)")
      (auto simp: filter_empty_conv)
  then have "acct \<in> set (filter (\<lambda>u. users_email u = email1) (users db))"
    by simp
  with assms(2) have "\<not> bcrypt_compare ext password1 (users_password_hash acct)"
    by simp
  with login_selected [OF sel assms(4), of ext env]
  have 1: "login ext env db req1 = (db, Response 400 (Text ''Invalid email or password.''))"
    by simp
  from assms(3) have "filter (\<lambda>u. users_email u = email2) (users db) = []"
    by (simp add: filter_empty_conv)
  from login_unknown_email [OF this assms(5), of ext env]
  have 2: "login ext env db req2 = (db, Response 400 (Text ''Invalid email or password.''))" .
  from 1 2 show ?thesis by simp
qed

text \<open>
  Where they do not: with no password in the body (or one that is not a string), an
  attempt against an existing email throws and gets no response, and an attempt against
  an email that no account has gets the 400, in every store.
\<close>

lemma login_without_password:
  assumes "body req1 = (email1, None)" and "body req2 = (email2, None)"
    and "\<exists>u\<in>set (users db). users_email u = email1"
    and "\<forall>u\<in>set (users db). users_email u \<noteq> email2"
  shows "login ext env db req1 = (db, Rejected Illegal_arguments)"
    and "login ext env db req2 = (db, Response 400 (Text ''Invalid email or password.''))"
proof -
  from assms(3) obtain acct rest
    where "filter (\<lambda>u. users_email u = email1) (users db) = acct # rest"
    by (cases "filter (\<lambda>u. users_email u = email1) (users db)")
      (auto simp: filter_empty_conv)
  from login_not_a_string [OF this assms(1)]
  show "login ext env db req1 = (db, Rejected Illegal_arguments)" .
  from assms(4) have "filter (\<lambda>u. users_email u = email2) (users db) = []"
    by (simp add: filter_empty_conv)
  from login_unknown_email [OF this assms(2)]
  show "login ext env db req2 = (db, Response 400 (Text ''Invalid email or password.''))" .
qed

text \<open>
  Claim C3. The handler answers both failures with the same 400, but it reaches
  \<open>bcrypt.compare\<close> only for an email that exists and catches nothing. A login for the
  stored email \<open>a@x.com\<close> with no password in the body is a failed attempt against an
  existing email: the compare throws and the handler sends no response. The same body
  with the email \<open>nobody@x.com\<close>, which no account has, gets 400 with
  \<open>Invalid email or password.\<close>. The two outcomes differ, so the caller learns that
  the first email exists.
\<close>

theorem login_missing_password_tells_email:
  "login ref_ext ref_env ref_db (ref_request None [] (''a@x.com'', None)) =
     (ref_db, Rejected Illegal_arguments)
   \<and> login ref_ext ref_env ref_db (ref_request None [] (''nobody@x.com'', None)) =
     (ref_db, Response 400 (Text ''Invalid email or password.''))
   \<and> snd (login ref_ext ref_env ref_db (ref_request None [] (''a@x.com'', None))) \<noteq>
     snd (login ref_ext ref_env ref_db (ref_request None [] (''nobody@x.com'', None)))"
  by (simp add: login_def ref_db_def ref_request_simps)

text \<open>
  Claim C8. A successful login signs the identity of the account with a tenant scope
  that is the wildcard \<open>*\<close> for a superadmin, the wildcard \<open>*\<close> as well for a
  regular admin with no row in \<open>club_admins\<close> (it neither fails nor issues an empty
  scope), and the club id of the first binding row when the regular admin has one.
\<close>

theorem login_tenant_scope:
  assumes "acct \<in> set (users db)"
    and "distinct (map users_email (users db))"
    and "bcrypt_compare ext password (users_password_hash acct)"
    and "body req = (users_email acct, Some password)"
  shows "\<exists>scope.
           login ext env db req =
             (db, Response 200 (Json_login
                \<lparr>admin_id = users_id acct, admin_email = users_email acct,
                  role = (if users_is_superadmin acct then SUPERADMIN else ADMIN),
                  clubId = scope\<rparr>
                (jwt_sign ext
                   \<lparr>admin_id = users_id acct, admin_email = users_email acct,
                     role = (if users_is_superadmin acct then SUPERADMIN else ADMIN),
                     clubId = scope\<rparr> (JWT_SECRET env))))
           \<and> (users_is_superadmin acct \<longrightarrow> scope = ''*'')
           \<and> (\<not> users_is_superadmin acct \<and>
                (\<forall>c\<in>set (club_admins db). club_admins_user_id c \<noteq> users_id acct) \<longrightarrow>
                scope = ''*'')
           \<and> (\<forall>c cs. \<not> users_is_superadmin acct \<and>
                filter (\<lambda>c. club_admins_user_id c = users_id acct) (club_admins db) = c # cs \<longrightarrow>
                scope = club_admins_club_id c)"
proof -
  from assms(1,2) have "filter (\<lambda>u. users_email u = users_email acct) (users db) = [acct]"
    by (simp add: filter_distinct_email)
  from login_selected [OF this assms(4), of ext env] assms(3)
  show ?thesis
    by (auto simp: Let_def filter_empty_conv split: list.splits)
qed

theorem login_tenant_scope_witness:
  "login ref_ext ref_env ref_db (ref_request None [] (''c@x.com'', Some ''orphan'')) =
     (ref_db, Response 200 (Json_login
        \<lparr>admin_id = 3, admin_email = ''c@x.com'', role = ADMIN, clubId = ''*''\<rparr>
        (ref_sign \<lparr>admin_id = 3, admin_email = ''c@x.com'', role = ADMIN, clubId = ''*''\<rparr> ''k'')))
   \<and> login ref_ext ref_env ref_db (ref_request None [] (''a@x.com'', Some ''secret'')) =
     (ref_db, Response 200 (Json_login adminA tokenA))"
proof (intro conjI)
  have "ref_orphan \<in> set (users ref_db)"
    by (simp add: ref_db_def ref_orphan_def)
  moreover have "bcrypt_compare ref_ext ''orphan'' (users_password_hash ref_orphan)"
    by (simp add: ref_ext_simps ref_orphan_def)
  moreover have "body (ref_request None [] (''c@x.com'', Some ''orphan'')) =
      (users_email ref_orphan, Some ''orphan'')"
    by (simp add: ref_request_simps ref_orphan_def)
  moreover have "\<forall>c\<in>set (club_admins ref_db). club_admins_user_id c \<noteq> users_id ref_orphan"
    by (simp add: ref_db_def ref_orphan_def)
  moreover have "\<not> users_is_superadmin ref_orphan"
    by (simp add: ref_orphan_def)
  ultimately show "login ref_ext ref_env ref_db (ref_request None [] (''c@x.com'', Some ''orphan'')) =
     (ref_db, Response 200 (Json_login
        \<lparr>admin_id = 3, admin_email = ''c@x.com'', role = ADMIN, clubId = ''*''\<rparr>
        (ref_sign \<lparr>admin_id = 3, admin_email = ''c@x.com'', role = ADMIN, clubId = ''*''\<rparr> ''k'')))"
    using login_tenant_scope [of ref_orphan ref_db ref_ext "''orphan''"
        "ref_request None [] (''c@x.com'', Some ''orphan'')" ref_env] ref_db_users_distinct
    by (auto simp: ref_orphan_def ref_ext_simps JWT_SECRET_ref)
next
  have "ref_account \<in> set (users ref_db)"
    by (simp add: ref_db_def ref_account_def)
  moreover have "bcrypt_compare ref_ext ''secret'' (users_password_hash ref_account)"
    by (simp add: ref_ext_simps ref_account_def)
  moreover have "body (ref_request None [] (''a@x.com'', Some ''secret'')) =
      (users_email ref_account, Some ''secret'')"
    by (simp add: ref_request_simps ref_account_def)
  moreover have "filter (\<lambda>c. club_admins_user_id c = users_id ref_account) (club_admins ref_db) =
      [\<lparr>club_admins_user_id = 2, club_admins_club_id = ''A'', club_admins_role = ''ADMIN''\<rparr>]"
    by (simp add: ref_db_def ref_account_def)
  moreover have "\<not> users_is_superadmin ref_account"
    by (simp add: ref_account_def)
  ultimately show "login ref_ext ref_env ref_db (ref_request None [] (''a@x.com'', Some ''secret'')) =
     (ref_db, Response 200 (Json_login adminA tokenA))"
    using login_tenant_scope [of ref_account ref_db ref_ext "''secret''"
        "ref_request None [] (''a@x.com'', Some ''secret'')" ref_env] ref_db_users_distinct
    by (auto simp: ref_account_def ref_ext_simps JWT_SECRET_ref adminA_def tokenA [symmetric])
qed

section \<open>Properties of bootstrap\<close>

lemma initializeDatabase_existing:
  assumes "filter users_is_superadmin (users db) \<noteq> []"
  shows "initializeDatabase ext env db = Inr db"
  using assms by (simp add: initializeDatabase_def)

lemma initializeDatabase_creates:
  assumes "filter users_is_superadmin (users db) = []"
    and "initializeDatabase ext env db = Inr db'"
  shows "filter users_is_superadmin (users db') =
         [\<lparr>users_id = next_id db,
           users_email = or_default (env_SUPERADMIN_EMAIL env) ''superadmin@example.com'',
           users_password_hash =
             bcrypt_hash ext (or_default (env_SUPERADMIN_PASSWORD env) ''password123''),
           users_is_superadmin = True\<rparr>]"
  using assms
  by (auto simp: initializeDatabase_def insert_users_def Let_def split: if_splits)

text \<open>
  Claim C6. Bootstrap on a store that holds an account with the superadmin flag set
  writes nothing: it returns the store as it is. Whenever a run of bootstrap returns,
  a second run on the store it returned (under any configuration) returns that store
  unchanged, and the store holds as many superadmins as before the first run, or one
  when it held none: no second superadmin is created.
\<close>

theorem initializeDatabase_idempotent:
  "((\<exists>u\<in>set (users db). users_is_superadmin u) \<longrightarrow> initializeDatabase ext env db = Inr db)
   \<and> (\<forall>db'. initializeDatabase ext env db = Inr db' \<longrightarrow>
         initializeDatabase ext' env' db' = Inr db'
         \<and> length (filter users_is_superadmin (users db')) =
           max 1 (length (filter users_is_superadmin (users db))))"
proof (intro conjI allI impI)
  assume "\<exists>u\<in>set (users db). users_is_superadmin u"
  then have "filter users_is_superadmin (users db) \<noteq> []"
    by (simp add: filter_empty_conv)
  then show "initializeDatabase ext env db = Inr db"
    by (rule initializeDatabase_existing)
next
  fix db'
  assume run: "initializeDatabase ext env db = Inr db'"
  have some: "filter users_is_superadmin (users db') \<noteq> []"
  proof (cases "filter users_is_superadmin (users db) = []")
    case True
    from initializeDatabase_creates [OF True run] show ?thesis by simp
  next
    case False
    with run show ?thesis by (simp add: initializeDatabase_existing)
  qed
  then show "initializeDatabase ext' env' db' = Inr db'"
    by (rule initializeDatabase_existing)
  show "length (filter users_is_superadmin (users db')) =
           max 1 (length (filter users_is_superadmin (users db)))"
  proof (cases "filter users_is_superadmin (users db) = []")
    case True
    from initializeDatabase_creates [OF True run] True show ?thesis by simp
  next
    case False
    with run have "db' = db" by (simp add: initializeDatabase_existing)
    moreover from False have "1 \<le> length (filter users_is_superadmin (users db))"
      by (cases "filter users_is_superadmin (users db)") simp_all
    ultimately show ?thesis by (simp add: max_def)
  qed
qed

lemma initializeDatabase_fresh:
  "initializeDatabase ref_ext ref_env ref_fresh_db = Inr ref_booted_db"
  by (simp add: initializeDatabase_def insert_users_def ref_fresh_db_def ref_booted_db_def
      ref_env_def or_default_def ref_ext_simps)

theorem initializeDatabase_idempotent_witness:
  "initializeDatabase ref_ext ref_env ref_db = Inr ref_db
   \<and> initializeDatabase ref_ext ref_env ref_fresh_db = Inr ref_booted_db
   \<and> initializeDatabase ref_ext ref_env ref_booted_db = Inr ref_booted_db
   \<and> length (filter users_is_superadmin (users ref_booted_db)) = 1"
proof -
  have "\<exists>u\<in>set (users ref_db). users_is_superadmin u"
    by (simp add: ref_db_def)
  then have "initializeDatabase ref_ext ref_env ref_db = Inr ref_db"
    using initializeDatabase_idempotent [of ref_db ref_ext ref_env] by simp
  moreover have "initializeDatabase ref_ext ref_env ref_booted_db = Inr ref_booted_db
      \<and> length (filter users_is_superadmin (users ref_booted_db)) = 1"
    using initializeDatabase_idempotent [of ref_fresh_db ref_ext ref_env ref_ext ref_env]
      initializeDatabase_fresh
    by (simp add: ref_fresh_db_def)
  ultimately show ?thesis
    by (simp add: initializeDatabase_fresh)
qed

section \<open>Properties of deleting an admin\<close>

lemma route_cases:
  "(\<exists>res. route ms h db req = (db, res)) \<or> (\<exists>req'. route ms h db req = h db req')"
  by (induction ms arbitrary: req) (auto split: sum.splits)

lemma route_gates_pass:
  assumes "header_token (authorization req) = Some t" and "t \<noteq> []"
    and "jwt_verify ext t (JWT_SECRET env) = Some u" and "role u = SUPERADMIN"
  shows "route [authMiddleware ext env, superadminMiddleware] h db req =
         h db (req\<lparr>user := Some u\<rparr>)"
proof -
  from assms(1-3) have "authMiddleware ext env req = Inr (req\<lparr>user := Some u\<rparr>)"
    by (rule authMiddleware_accepts)
  moreover from assms(4) have "map_option role (user (req\<lparr>user := Some u\<rparr>)) = Some SUPERADMIN"
    by simp
  ultimately show ?thesis by (rule route_superadmin)
qed

lemma delete_admins_users:
  "users (fst (delete_admins ext db req)) =
   filter (\<lambda>u. \<not> (sql_id_eq ext (users_id u) (param req) \<and> \<not> users_is_superadmin u)) (users db)"
  by (simp add: delete_admins_def Let_def)

lemma delete_admins_superadmins:
  "filter users_is_superadmin (users (fst (delete_admins ext db req))) =
   filter users_is_superadmin (users db)"
  by (auto simp: delete_admins_users intro: filter_cong)

lemma DELETE_admins_superadmins:
  "filter users_is_superadmin (users (fst (DELETE_admins ext env db req))) =
   filter users_is_superadmin (users db)"
  using route_cases [of "[authMiddleware ext env, superadminMiddleware]" "delete_admins ext" db req]
  unfolding DELETE_admins_def
  by (auto simp: delete_admins_superadmins)

text \<open>
  Claim C7. For every request, whatever its header and attached identity, the delete
  handler and the whole delete route leave the superadmin accounts of the store as
  they were: every account with the flag set is still stored afterwards, every
  account that is gone had the flag unset, and the handler does remove an account
  with the flag unset whose id the path names.
\<close>

theorem delete_admins_keeps_superadmins:
  "filter users_is_superadmin (users (fst (delete_admins ext db req))) =
     filter users_is_superadmin (users db)
   \<and> filter users_is_superadmin (users (fst (DELETE_admins ext env db req))) =
     filter users_is_superadmin (users db)
   \<and> (\<forall>u\<in>set (users db). users_is_superadmin u \<longrightarrow>
         u \<in> set (users (fst (delete_admins ext db req))) \<and>
         u \<in> set (users (fst (DELETE_admins ext env db req))))
   \<and> (\<forall>u\<in>set (users db). u \<notin> set (users (fst (DELETE_admins ext env db req))) \<or>
         u \<notin> set (users (fst (delete_admins ext db req))) \<longrightarrow> \<not> users_is_superadmin u)
   \<and> (\<forall>u. sql_id_eq ext (users_id u) (param req) \<and> \<not> users_is_superadmin u \<longrightarrow>
         u \<notin> set (users (fst (delete_admins ext db req))))"
proof -
  have keep: "u \<in> set (users (fst (delete_admins ext db req))) \<and>
      u \<in> set (users (fst (DELETE_admins ext env db req)))"
    if "u \<in> set (users db)" and "users_is_superadmin u" for u
  proof -
    from that have "u \<in> set (filter users_is_superadmin (users db))"
      by simp
    then have "u \<in> set (filter users_is_superadmin (users (fst (delete_admins ext db req))))"
      and "u \<in> set (filter users_is_superadmin (users (fst (DELETE_admins ext env db req))))"
      by (simp_all only: delete_admins_superadmins DELETE_admins_superadmins)
    then show ?thesis by simp
  qed
  have gone: "u \<notin> set (users (fst (delete_admins ext db req)))"
    if "sql_id_eq ext (users_id u) (param req) \<and> \<not> users_is_superadmin u" for u
    using that by (simp add: delete_admins_users)
  from keep gone show ?thesis
    by (auto simp only: delete_admins_superadmins DELETE_admins_superadmins)
qed

theorem delete_admins_keeps_superadmins_witness:
  "ref_root \<in> set (users (fst (DELETE_admins ref_ext ref_env ref_db
       (ref_request (Some (''Bearer '' @ tokenS)) ''1'' ()))))
   \<and> ref_account \<notin> set (users (fst (delete_admins ref_ext ref_db
       (ref_request (Some (''Bearer '' @ tokenS)) ''2'' ()))))"
proof
  have "ref_root \<in> set (users ref_db)" and "users_is_superadmin ref_root"
    by (simp_all add: ref_db_def ref_root_def)
  then show "ref_root \<in> set (users (fst (DELETE_admins ref_ext ref_env ref_db
       (ref_request (Some (''Bearer '' @ tokenS)) ''1'' ()))))"
    using delete_admins_keeps_superadmins [of ref_ext ref_db
        "ref_request (Some (''Bearer '' @ tokenS)) ''1'' ()" ref_env]
    by blast
next
  have "sql_id_eq ref_ext (users_id ref_account)
      (param (ref_request (Some (''Bearer '' @ tokenS)) ''2'' ()))"
    by (simp add: ref_account_def ref_request_simps sql_id_eq_ref_2)
  moreover have "\<not> users_is_superadmin ref_account"
    by (simp add: ref_account_def)
  ultimately show "ref_account \<notin> set (users (fst (delete_admins ref_ext ref_db
       (ref_request (Some (''Bearer '' @ tokenS)) ''2'' ()))))"
    using delete_admins_keeps_superadmins [of ref_ext ref_db
        "ref_request (Some (''Bearer '' @ tokenS)) ''2'' ()" ref_env]
    by blast
qed

lemma delete_admins_nothing_to_delete:
  assumes "\<forall>x\<in>set (users db). sql_id_eq ext (users_id x) (param req) \<longrightarrow> users_is_superadmin x"
  shows "delete_admins ext db req = (db, Response 204 Empty)"
proof -
  from assms have none: "filter (\<lambda>u. sql_id_eq ext (users_id u) (param req) \<and>
      \<not> users_is_superadmin u) (users db) = []"
    by (auto simp: filter_empty_conv)
  from assms have rest: "filter (\<lambda>u. \<not> (sql_id_eq ext (users_id u) (param req) \<and>
      \<not> users_is_superadmin u)) (users db) = users db"
    by (auto simp: filter_id_conv)
  show ?thesis
    unfolding delete_admins_def Let_def none rest by simp
qed

lemma DELETE_admins_superadmin:
  assumes "header_token (authorization req) = Some t \<and> t \<noteq> [] \<and>
      jwt_verify ext t (JWT_SECRET env) = Some u \<and> role u = SUPERADMIN"
  shows "DELETE_admins ext env db req = delete_admins ext db (req\<lparr>user := Some u\<rparr>)"
  unfolding DELETE_admins_def
  using assms by (intro route_gates_pass [where t = t]) simp_all

text \<open>
  Claim C9. The delete handler always answers 204 with an empty body. Through the
  route, a request with a superadmin token gets 204 for every path id; when every
  account the id names is a superadmin (or there is none), nothing is deleted, the
  store is unchanged and the answer is still 204, not an error.
\<close>

theorem delete_admins_always_204:
  "snd (delete_admins ext db req) = Response 204 Empty
   \<and> (\<forall>t u. header_token (authorization req) = Some t \<and> t \<noteq> [] \<and>
          jwt_verify ext t (JWT_SECRET env) = Some u \<and> role u = SUPERADMIN \<longrightarrow>
          snd (DELETE_admins ext env db req) = Response 204 Empty
          \<and> ((\<forall>x\<in>set (users db). sql_id_eq ext (users_id x) (param req) \<longrightarrow>
                 users_is_superadmin x) \<longrightarrow>
               DELETE_admins ext env db req = (db, Response 204 Empty)))"
proof (intro conjI allI impI)
  show "snd (delete_admins ext db req) = Response 204 Empty"
    by (simp add: delete_admins_def Let_def)
next
  fix t u
  assume "header_token (authorization req) = Some t \<and> t \<noteq> [] \<and>
          jwt_verify ext t (JWT_SECRET env) = Some u \<and> role u = SUPERADMIN"
  then have "DELETE_admins ext env db req = delete_admins ext db (req\<lparr>user := Some u\<rparr>)"
    by (rule DELETE_admins_superadmin)
  then show "snd (DELETE_admins ext env db req) = Response 204 Empty"
    by (simp add: delete_admins_def Let_def)
next
  fix t u
  assume "header_token (authorization req) = Some t \<and> t \<noteq> [] \<and>
          jwt_verify ext t (JWT_SECRET env) = Some u \<and> role u = SUPERADMIN"
  then have "DELETE_admins ext env db req = delete_admins ext db (req\<lparr>user := Some u\<rparr>)"
    by (rule DELETE_admins_superadmin)
  moreover assume "\<forall>x\<in>set (users db). sql_id_eq ext (users_id x) (param req) \<longrightarrow>
                 users_is_superadmin x"
  then have "delete_admins ext db (req\<lparr>user := Some u\<rparr>) = (db, Response 204 Empty)"
    by (simp add: delete_admins_nothing_to_delete)
  ultimately show "DELETE_admins ext env db req = (db, Response 204 Empty)"
    by simp
qed

theorem delete_admins_always_204_witness:
  "DELETE_admins ref_ext ref_env ref_db (ref_request (Some (''Bearer '' @ tokenS)) ''1'' ()) =
     (ref_db, Response 204 Empty)
   \<and> snd (DELETE_admins ref_ext ref_env ref_db
        (ref_request (Some (''Bearer '' @ tokenS)) ''2'' ())) = Response 204 Empty
   \<and> ref_account \<notin> set (users (fst (DELETE_admins ref_ext ref_env ref_db
        (ref_request (Some (''Bearer '' @ tokenS)) ''2'' ()))))"
proof (intro conjI)
  let ?r = "ref_request (Some (''Bearer '' @ tokenS)) ''1'' ()"
  have gate: "header_token (authorization ?r) = Some tokenS \<and> tokenS \<noteq> [] \<and>
      jwt_verify ref_ext tokenS (JWT_SECRET ref_env) = Some superadmin1 \<and>
      role superadmin1 = SUPERADMIN"
    by (rule ref_gate_tokenS)
  have "\<forall>x\<in>set (users ref_db). sql_id_eq ref_ext (users_id x) (param ?r) \<longrightarrow>
      users_is_superadmin x"
    by (simp add: ref_db_def ref_request_simps sql_id_eq_ref_1)
  with gate show "DELETE_admins ref_ext ref_env ref_db ?r = (ref_db, Response 204 Empty)"
    using delete_admins_always_204 [of ref_ext ref_db ?r ref_env] by blast
next
  let ?r = "ref_request (Some (''Bearer '' @ tokenS)) ''2'' ()"
  have gate: "header_token (authorization ?r) = Some tokenS \<and> tokenS \<noteq> [] \<and>
      jwt_verify ref_ext tokenS (JWT_SECRET ref_env) = Some superadmin1 \<and>
      role superadmin1 = SUPERADMIN"
    by (rule ref_gate_tokenS)
  then show "snd (DELETE_admins ref_ext ref_env ref_db ?r) = Response 204 Empty"
    using delete_admins_always_204 [of ref_ext ref_db ?r ref_env] by blast
next
  let ?r = "ref_request (Some (''Bearer '' @ tokenS)) ''2'' ()"
  have "DELETE_admins ref_ext ref_env ref_db ?r =
      delete_admins ref_ext ref_db (?r\<lparr>user := Some superadmin1\<rparr>)"
    by (rule DELETE_admins_superadmin [OF ref_gate_tokenS])
  then show "ref_account \<notin> set (users (fst (DELETE_admins ref_ext ref_env ref_db ?r)))"
    by (simp add: delete_admins_users ref_request_def ref_account_def sql_id_eq_ref_2)
qed

section \<open>Properties of the read routes\<close>

lemma mset_order_by_desc: "mset (order_by_desc k rows) = mset rows"
  by (simp add: order_by_desc_def)

lemma sorted_order_by_desc: "sorted (rev (map k (order_by_desc k rows)))"
  by (simp add: order_by_desc_def rev_map)

lemma order_by_desc_Nil: "order_by_desc k rows = [] \<longleftrightarrow> rows = []"
proof -
  have "set (order_by_desc k rows) = set rows"
    by (simp add: order_by_desc_def)
  then show ?thesis
    by (simp only: set_empty [symmetric])
qed

lemma order_by_desc_hd:
  assumes "order_by_desc k rows = f # fs"
  shows "f \<in> set rows \<and> (\<forall>g\<in>set rows. k g \<le> k f)"
proof -
  from assms have "rev (rev (sort_key k rows)) = rev (f # fs)"
    by (simp only: order_by_desc_def)
  then have s: "sort_key k rows = rev fs @ [f]"
    by simp
  have "set (sort_key k rows) = set rows"
    by simp
  with s have mem: "set rows = insert f (set fs)"
    by simp
  have "sorted (map k (sort_key k rows))"
    by (rule sorted_sort_key)
  with s have "sorted (map k (rev fs) @ [k f])"
    by simp
  then have "\<forall>x\<in>set fs. k x \<le> k f"
    by (simp add: sorted_append)
  with mem show ?thesis by simp
qed

lemma get_application_empty:
  assumes "application_forms db = []"
  shows "get_application db req = (db, Response 404 (Text ''Application form not found.''))"
  using assms by (simp add: get_application_def order_by_desc_def)

lemma get_application_newest:
  assumes "application_forms db \<noteq> []"
  shows "\<exists>f\<in>set (application_forms db).
           get_application db req = (db, Response 200 (Json_application_form f)) \<and>
           (\<forall>g\<in>set (application_forms db).
              application_forms_updatedAt g \<le> application_forms_updatedAt f)"
proof -
  from assms obtain f fs
    where o: "order_by_desc application_forms_updatedAt (application_forms db) = f # fs"
    by (cases "order_by_desc application_forms_updatedAt (application_forms db)")
      (simp_all add: order_by_desc_Nil)
  then have "get_application db req = (db, Response 200 (Json_application_form f))"
    by (simp add: get_application_def)
  with order_by_desc_hd [OF o] show ?thesis by blast
qed

text \<open>
  Claim C10. The read routes for a club's team, gallery, news, blog posts and the
  application form run no token gate: for every request, with or without an
  authorization header, they answer from the store and leave it unchanged. Team and
  gallery answer 200 with the club's rows; news and blogs answer 200 with the club's
  rows, newest first; the application route answers 200 with the newest form of the
  table, or 404 when the table is empty. None of them answers 401.
\<close>

theorem content_reads_need_no_token:
  "GET_clubs_team db req =
     (db, Response 200 (Json_team_members
        (filter (\<lambda>m. team_members_club_id m = param req) (team_members db))))
   \<and> GET_clubs_gallery db req =
     (db, Response 200 (Json_gallery_events
        (filter (\<lambda>e. gallery_events_club_id e = param req) (gallery_events db))))
   \<and> (\<exists>rows. GET_clubs_news db req = (db, Response 200 (Json_news_articles rows))
        \<and> mset rows = mset (filter (\<lambda>a. news_articles_club_id a = param req) (news_articles db))
        \<and> sorted (rev (map news_articles_created_at rows)))
   \<and> (\<exists>rows. GET_clubs_blogs db req = (db, Response 200 (Json_blog_posts rows))
        \<and> mset rows = mset (filter (\<lambda>p. blog_posts_club_id p = param req) (blog_posts db))
        \<and> sorted (rev (map blog_posts_created_at rows)))
   \<and> (application_forms db = [] \<longrightarrow>
        GET_clubs_application db req =
        (db, Response 404 (Text ''Application form not found.'')))
   \<and> (application_forms db \<noteq> [] \<longrightarrow>
        (\<exists>f\<in>set (application_forms db).
           GET_clubs_application db req = (db, Response 200 (Json_application_form f)) \<and>
           (\<forall>g\<in>set (application_forms db).
              application_forms_updatedAt g \<le> application_forms_updatedAt f)))"
proof (intro conjI impI)
  show "GET_clubs_team db req =
     (db, Response 200 (Json_team_members
        (filter (\<lambda>m. team_members_club_id m = param req) (team_members db))))"
    by (simp add: GET_clubs_team_def get_team_def)
next
  show "GET_clubs_gallery db req =
     (db, Response 200 (Json_gallery_events
        (filter (\<lambda>e. gallery_events_club_id e = param req) (gallery_events db))))"
    by (simp add: GET_clubs_gallery_def get_gallery_def)
next
  show "\<exists>rows. GET_clubs_news db req = (db, Response 200 (Json_news_articles rows))
        \<and> mset rows = mset (filter (\<lambda>a. news_articles_club_id a = param req) (news_articles db))
        \<and> sorted (rev (map news_articles_created_at rows))"
    unfolding GET_clubs_news_def get_news_def
    using mset_order_by_desc sorted_order_by_desc by (intro exI conjI) (simp, blast, blast)
next
  show "\<exists>rows. GET_clubs_blogs db req = (db, Response 200 (Json_blog_posts rows))
        \<and> mset rows = mset (filter (\<lambda>p. blog_posts_club_id p = param req) (blog_posts db))
        \<and> sorted (rev (map blog_posts_created_at rows))"
    unfolding GET_clubs_blogs_def get_blogs_def
    using mset_order_by_desc sorted_order_by_desc by (intro exI conjI) (simp, blast, blast)
next
  assume "application_forms db = []"
  then show "GET_clubs_application db req =
        (db, Response 404 (Text ''Application form not found.''))"
    by (simp add: GET_clubs_application_def get_application_empty)
next
  assume "application_forms db \<noteq> []"
  then show "\<exists>f\<in>set (application_forms db).
           GET_clubs_application db req = (db, Response 200 (Json_application_form f)) \<and>
           (\<forall>g\<in>set (application_forms db).
              application_forms_updatedAt g \<le> application_forms_updatedAt f)"
    by (simp add: GET_clubs_application_def get_application_newest)
qed

theorem content_reads_need_no_token_witness:
  "GET_clubs_team ref_content_db (ref_request None ''A'' ()) =
     (ref_content_db, Response 200 (Json_team_members [ref_member]))
   \<and> GET_clubs_application ref_db (ref_request None ''A'' ()) =
     (ref_db, Response 404 (Text ''Application form not found.''))
   \<and> GET_clubs_application ref_content_db (ref_request None ''A'' ()) =
     (ref_content_db, Response 200 (Json_application_form ref_form_new))"
proof (intro conjI)
  show "GET_clubs_team ref_content_db (ref_request None ''A'' ()) =
     (ref_content_db, Response 200 (Json_team_members [ref_member]))"
    using content_reads_need_no_token [of ref_content_db "ref_request None ''A'' ()"]
    by (simp add: ref_content_db_def ref_request_simps ref_member_def)
next
  have "application_forms ref_db = []"
    by (simp add: ref_db_def)
  then show "GET_clubs_application ref_db (ref_request None ''A'' ()) =
     (ref_db, Response 404 (Text ''Application form not found.''))"
    using content_reads_need_no_token [of ref_db "ref_request None ''A'' ()"]
    by simp
next
  have forms: "application_forms ref_content_db = [ref_form_old, ref_form_new]"
    by (simp add: ref_content_db_def)
  then have "application_forms ref_content_db \<noteq> []"
    by simp
  then obtain f where f: "f \<in> set (application_forms ref_content_db)"
    and served: "GET_clubs_application ref_content_db (ref_request None ''A'' ()) =
      (ref_content_db, Response 200 (Json_application_form f))"
    and newest: "\<forall>g\<in>set (application_forms ref_content_db).
      application_forms_updatedAt g \<le> application_forms_updatedAt f"
    using content_reads_need_no_token [of ref_content_db "ref_request None ''A'' ()"]
    by blast
  from f newest forms have "f = ref_form_new"
    by (auto simp: ref_form_old_def ref_form_new_def)
  with served show "GET_clubs_application ref_content_db (ref_request None ''A'' ()) =
     (ref_content_db, Response 200 (Json_application_form ref_form_new))"
    by simp
qed

section \<open>Properties of the write routes\<close>

lemma route_token_upload:
  assumes "header_token (authorization req) = Some t" and "t \<noteq> []"
    and "jwt_verify ext t (JWT_SECRET env) = Some u"
  shows "route [authMiddleware ext env, upload] h db req = h db (req\<lparr>user := Some u\<rparr>)"
proof -
  from assms have "authMiddleware ext env req = Inr (req\<lparr>user := Some u\<rparr>)"
    by (rule authMiddleware_accepts)
  then show ?thesis
    by (simp add: upload_def)
qed

lemma post_team_stores:
  "\<exists>row. post_team db req =
       (db\<lparr>team_members := team_members db @ [row], next_id := Suc (next_id db)\<rparr>,
        Response 201 (Json_team_member (next_id db) (body req) (file_url req)))
     \<and> team_members_club_id row = param req"
proof (cases "body req")
  case (fields name role' grade bio)
  let ?row = "\<lparr>team_members_id = next_id db, team_members_club_id = param req,
     team_members_name = name, team_members_role = role', team_members_grade = grade,
     team_members_bio = bio, team_members_photo_url = file_url req\<rparr>"
  from fields have "post_team db req =
       (db\<lparr>team_members := team_members db @ [?row], next_id := Suc (next_id db)\<rparr>,
        Response 201 (Json_team_member (next_id db) (body req) (file_url req)))"
    by (simp add: post_team_def Let_def)
  moreover have "team_members_club_id ?row = param req"
    by simp
  ultimately show ?thesis by blast
qed

lemma post_gallery_stores:
  "\<exists>row. post_gallery db req =
       (db\<lparr>gallery_events := gallery_events db @ [row], next_id := Suc (next_id db)\<rparr>,
        Response 201 (Json_gallery_event (next_id db) (body req)
                        (map (\<lambda>f. ''/uploads/'' @ f) (files req))))
     \<and> gallery_events_club_id row = param req"
proof -
  let ?row = "\<lparr>gallery_events_id = next_id db, gallery_events_club_id = param req,
     gallery_events_title = body req,
     gallery_events_images = map (\<lambda>f. ''/uploads/'' @ f) (files req)\<rparr>"
  have "post_gallery db req =
       (db\<lparr>gallery_events := gallery_events db @ [?row], next_id := Suc (next_id db)\<rparr>,
        Response 201 (Json_gallery_event (next_id db) (body req)
                        (map (\<lambda>f. ''/uploads/'' @ f) (files req))))"
    by (simp add: post_gallery_def Let_def)
  moreover have "gallery_events_club_id ?row = param req"
    by simp
  ultimately show ?thesis by blast
qed

lemma post_news_stores:
  "\<exists>row res. post_news db req =
       (db\<lparr>news_articles := news_articles db @ [row], next_id := Suc (next_id db)\<rparr>,
        Response 201 res)
     \<and> news_articles_club_id row = param req"
proof (cases "body req")
  case (fields title author content)
  let ?row = "\<lparr>news_articles_id = next_id db, news_articles_club_id = param req,
     news_articles_title = title, news_articles_author = author,
     news_articles_content = content, news_articles_image_url = file_url req,
     news_articles_created_at = now req\<rparr>"
  from fields have "\<exists>res. post_news db req =
       (db\<lparr>news_articles := news_articles db @ [?row], next_id := Suc (next_id db)\<rparr>,
        Response 201 res)"
    by (simp add: post_news_def Let_def)
  moreover have "news_articles_club_id ?row = param req"
    by simp
  ultimately show ?thesis by blast
qed

lemma post_blogs_stores:
  "\<exists>row res. post_blogs db req =
       (db\<lparr>blog_posts := blog_posts db @ [row], next_id := Suc (next_id db)\<rparr>,
        Response 201 res)
     \<and> blog_posts_club_id row = param req"
proof (cases "body req")
  case (fields title author excerpt content)
  let ?row = "\<lparr>blog_posts_id = next_id db, blog_posts_club_id = param req,
     blog_posts_title = title, blog_posts_author = author, blog_posts_excerpt = excerpt,
     blog_posts_content = content, blog_posts_image_url = file_url req,
     blog_posts_created_at = now req\<rparr>"
  from fields have "\<exists>res. post_blogs db req =
       (db\<lparr>blog_posts := blog_posts db @ [?row], next_id := Suc (next_id db)\<rparr>,
        Response 201 res)"
    by (simp add: post_blogs_def Let_def)
  moreover have "blog_posts_club_id ?row = param req"
    by simp
  ultimately show ?thesis by blast
qed

text \<open>
  Claim C1, as the code has it. The write routes for a club's team, gallery, news and
  blog posts pass every request whose token verifies, whatever the role and the tenant
  scope of the identity (a request as the record describes it: its upload accepted,
  its body carrying the fields the handler reads): they answer 201 and store the new
  row under the club id of the path. The identity's tenant scope is not compared with the path's club id, for
  a regular admin or for a superadmin; the token gate is the only check.
\<close>

theorem tenant_scope_not_compared:
  assumes "header_token a = Some t" and "t \<noteq> []"
    and "jwt_verify ext t (JWT_SECRET env) = Some u"
  shows "(\<forall>req. authorization req = a \<longrightarrow>
            (\<exists>row. POST_clubs_team ext env db req =
                (db\<lparr>team_members := team_members db @ [row], next_id := Suc (next_id db)\<rparr>,
                 Response 201 (Json_team_member (next_id db) (body req) (file_url req)))
              \<and> team_members_club_id row = param req))
       \<and> (\<forall>req. authorization req = a \<longrightarrow>
            (\<exists>row. POST_clubs_gallery ext env db req =
                (db\<lparr>gallery_events := gallery_events db @ [row], next_id := Suc (next_id db)\<rparr>,
                 Response 201 (Json_gallery_event (next_id db) (body req)
                                 (map (\<lambda>f. ''/uploads/'' @ f) (files req))))
              \<and> gallery_events_club_id row = param req))
       \<and> (\<forall>req. authorization req = a \<longrightarrow>
            (\<exists>row res. POST_clubs_news ext env db req =
                (db\<lparr>news_articles := news_articles db @ [row], next_id := Suc (next_id db)\<rparr>,
                 Response 201 res)
              \<and> news_articles_club_id row = param req))
       \<and> (\<forall>req. authorization req = a \<longrightarrow>
            (\<exists>row res. POST_clubs_blogs ext env db req =
                (db\<lparr>blog_posts := blog_posts db @ [row], next_id := Suc (next_id db)\<rparr>,
                 Response 201 res)
              \<and> blog_posts_club_id row = param req))"
proof (intro conjI allI impI)
  fix req :: "(string \<times> string \<times> string \<times> string) request"
  assume "authorization req = a"
  with assms have "POST_clubs_team ext env db req = post_team db (req\<lparr>user := Some u\<rparr>)"
    unfolding POST_clubs_team_def by (intro route_token_upload [where t = t]) simp_all
  with post_team_stores [of db "req\<lparr>user := Some u\<rparr>"]
  show "\<exists>row. POST_clubs_team ext env db req =
                (db\<lparr>team_members := team_members db @ [row], next_id := Suc (next_id db)\<rparr>,
                 Response 201 (Json_team_member (next_id db) (body req) (file_url req)))
              \<and> team_members_club_id row = param req"
    by (simp add: file_url_def)
next
  fix req :: "string request"
  assume "authorization req = a"
  with assms have "POST_clubs_gallery ext env db req = post_gallery db (req\<lparr>user := Some u\<rparr>)"
    unfolding POST_clubs_gallery_def by (intro route_token_upload [where t = t]) simp_all
  with post_gallery_stores [of db "req\<lparr>user := Some u\<rparr>"]
  show "\<exists>row. POST_clubs_gallery ext env db req =
                (db\<lparr>gallery_events := gallery_events db @ [row], next_id := Suc (next_id db)\<rparr>,
                 Response 201 (Json_gallery_event (next_id db) (body req)
                                 (map (\<lambda>f. ''/uploads/'' @ f) (files req))))
              \<and> gallery_events_club_id row = param req"
    by simp
next
  fix req :: "(string \<times> string \<times> string) request"
  assume "authorization req = a"
  with assms have "POST_clubs_news ext env db req = post_news db (req\<lparr>user := Some u\<rparr>)"
    unfolding POST_clubs_news_def by (intro route_token_upload [where t = t]) simp_all
  with post_news_stores [of db "req\<lparr>user := Some u\<rparr>"]
  show "\<exists>row res. POST_clubs_news ext env db req =
                (db\<lparr>news_articles := news_articles db @ [row], next_id := Suc (next_id db)\<rparr>,
                 Response 201 res)
              \<and> news_articles_club_id row = param req"
    by simp
next
  fix req :: "(string \<times> string \<times> string \<times> string) request"
  assume "authorization req = a"
  with assms have "POST_clubs_blogs ext env db req = post_blogs db (req\<lparr>user := Some u\<rparr>)"
    unfolding POST_clubs_blogs_def by (intro route_token_upload [where t = t]) simp_all
  with post_blogs_stores [of db "req\<lparr>user := Some u\<rparr>"]
  show "\<exists>row res. POST_clubs_blogs ext env db req =
                (db\<lparr>blog_posts := blog_posts db @ [row], next_id := Suc (next_id db)\<rparr>,
                 Response 201 res)
              \<and> blog_posts_club_id row = param req"
    by simp
qed

theorem tenant_scope_not_compared_witness:
  "(\<exists>row. POST_clubs_team ref_ext ref_env ref_db
       (ref_request (Some (''Bearer '' @ tokenA)) ''A'' (''Eve'', ''Member'', ''9'', ''bio'')) =
       (ref_db\<lparr>team_members := team_members ref_db @ [row], next_id := Suc (next_id ref_db)\<rparr>,
        Response 201 (Json_team_member (next_id ref_db) (''Eve'', ''Member'', ''9'', ''bio'') None))
     \<and> team_members_club_id row = ''A'')
   \<and> (\<exists>row res. POST_clubs_news ref_ext ref_env ref_db
       (ref_request (Some (''Bearer '' @ tokenA)) ''B'' (''Title'', ''Ann'', ''text'')) =
       (ref_db\<lparr>news_articles := news_articles ref_db @ [row], next_id := Suc (next_id ref_db)\<rparr>,
        Response 201 res)
     \<and> news_articles_club_id row = ''B'')
   \<and> (\<exists>row res. POST_clubs_news ref_ext ref_env ref_db
       (ref_request (Some (''Bearer '' @ tokenS)) ''B'' (''Title'', ''Ann'', ''text'')) =
       (ref_db\<lparr>news_articles := news_articles ref_db @ [row], next_id := Suc (next_id ref_db)\<rparr>,
        Response 201 res)
     \<and> news_articles_club_id row = ''B'')"
proof (intro conjI)
  let ?r = "ref_request (Some (''Bearer '' @ tokenA)) ''A'' (''Eve'', ''Member'', ''9'', ''bio'')"
  have "authorization ?r = Some (''Bearer '' @ tokenA)"
    by (simp add: ref_request_simps)
  with tenant_scope_not_compared [OF ref_gate_tokenA_facts, of ref_db]
  have "\<exists>row. POST_clubs_team ref_ext ref_env ref_db ?r =
       (ref_db\<lparr>team_members := team_members ref_db @ [row], next_id := Suc (next_id ref_db)\<rparr>,
        Response 201 (Json_team_member (next_id ref_db) (body ?r) (file_url ?r)))
     \<and> team_members_club_id row = param ?r"
    by blast
  then show "\<exists>row. POST_clubs_team ref_ext ref_env ref_db ?r =
       (ref_db\<lparr>team_members := team_members ref_db @ [row], next_id := Suc (next_id ref_db)\<rparr>,
        Response 201 (Json_team_member (next_id ref_db) (''Eve'', ''Member'', ''9'', ''bio'') None))
     \<and> team_members_club_id row = ''A''"
    by (simp add: ref_request_simps file_url_def)
next
  let ?r = "ref_request (Some (''Bearer '' @ tokenA)) ''B'' (''Title'', ''Ann'', ''text'')"
  have "authorization ?r = Some (''Bearer '' @ tokenA)"
    by (simp add: ref_request_simps)
  with tenant_scope_not_compared [OF ref_gate_tokenA_facts, of ref_db]
  have "\<exists>row res. POST_clubs_news ref_ext ref_env ref_db ?r =
       (ref_db\<lparr>news_articles := news_articles ref_db @ [row], next_id := Suc (next_id ref_db)\<rparr>,
        Response 201 res)
     \<and> news_articles_club_id row = param ?r"
    by blast
  then show "\<exists>row res. POST_clubs_news ref_ext ref_env ref_db ?r =
       (ref_db\<lparr>news_articles := news_articles ref_db @ [row], next_id := Suc (next_id ref_db)\<rparr>,
        Response 201 res)
     \<and> news_articles_club_id row = ''B''"
    by (simp add: ref_request_simps)
next
  let ?r = "ref_request (Some (''Bearer '' @ tokenS)) ''B'' (''Title'', ''Ann'', ''text'')"
  have "authorization ?r = Some (''Bearer '' @ tokenS)"
    by (simp add: ref_request_simps)
  with tenant_scope_not_compared [OF ref_gate_tokenS_facts, of ref_db]
  have "\<exists>row res. POST_clubs_news ref_ext ref_env ref_db ?r =
       (ref_db\<lparr>news_articles := news_articles ref_db @ [row], next_id := Suc (next_id ref_db)\<rparr>,
        Response 201 res)
     \<and> news_articles_club_id row = param ?r"
    by blast
  then show "\<exists>row res. POST_clubs_news ref_ext ref_env ref_db ?r =
       (ref_db\<lparr>news_articles := news_articles ref_db @ [row], next_id := Suc (next_id ref_db)\<rparr>,
        Response 201 res)
     \<and> news_articles_club_id row = ''B''"
    by (simp add: ref_request_simps)
qed

text \<open>
  Claim C1, as the spec states it, fails on the code: the regular admin bound to club
  \<open>A\<close> logs in, gets a token with tenant scope \<open>A\<close>, and with it adds a team member
  to club \<open>B\<close>. The route answers 201 and the row is stored under \<open>B\<close>.
\<close>

theorem tenant_scope_counterexample:
  "login ref_ext ref_env ref_db (ref_request None [] (''a@x.com'', Some ''secret'')) =
     (ref_db, Response 200 (Json_login adminA tokenA))
   \<and> role adminA = ADMIN \<and> clubId adminA = ''A''
   \<and> POST_clubs_team ref_ext ref_env ref_db
       (ref_request (Some (''Bearer '' @ tokenA)) ''B'' (''Eve'', ''Member'', ''9'', ''bio'')) =
     (ref_db\<lparr>team_members := [ref_member_B], next_id := 5\<rparr>,
      Response 201 (Json_team_member 4 (''Eve'', ''Member'', ''9'', ''bio'') None))"
proof (intro conjI)
  show "login ref_ext ref_env ref_db (ref_request None [] (''a@x.com'', Some ''secret'')) =
     (ref_db, Response 200 (Json_login adminA tokenA))"
    using tokenA
    by (simp add: login_def ref_db_def ref_request_simps ref_ext_simps JWT_SECRET_ref
        adminA_def)
next
  show "role adminA = ADMIN" and "clubId adminA = ''A''"
    by (simp_all add: adminA_def)
next
  let ?r = "ref_request (Some (''Bearer '' @ tokenA)) ''B'' (''Eve'', ''Member'', ''9'', ''bio'')"
  have "authMiddleware ref_ext ref_env ?r = Inr (?r\<lparr>user := Some adminA\<rparr>)"
    using ref_gate_tokenA_facts
    by (intro authMiddleware_accepts [where t = tokenA]) (simp_all add: ref_request_simps)
  then have "POST_clubs_team ref_ext ref_env ref_db ?r =
      post_team ref_db (?r\<lparr>user := Some adminA\<rparr>)"
    by (simp add: POST_clubs_team_def upload_def)
  also have "\<dots> = (ref_db\<lparr>team_members := [ref_member_B], next_id := 5\<rparr>,
      Response 201 (Json_team_member 4 (''Eve'', ''Member'', ''9'', ''bio'') None))"
    by (simp add: post_team_def ref_request_def ref_db_def ref_member_B_def file_url_def)
  finally show "POST_clubs_team ref_ext ref_env ref_db ?r =
     (ref_db\<lparr>team_members := [ref_member_B], next_id := 5\<rparr>,
      Response 201 (Json_team_member 4 (''Eve'', ''Member'', ''9'', ''bio'') None))" .
qed

section \<open>Unique emails\<close>

text \<open>
  The operations that write to \<open>users\<close> keep its emails unique, so the uniqueness that
  the login theorems assume of the store holds in every store the server reaches from a
  store that has it.
\<close>

lemma insert_users_unique:
  assumes "distinct (map users_email (users db))"
    and "insert_users db email h f = Inr (i, db')"
  shows "distinct (map users_email (users db'))"
  using assms by (auto simp: insert_users_def split: if_splits)

lemma initializeDatabase_unique:
  assumes "distinct (map users_email (users db))"
    and "initializeDatabase ext env db = Inr db'"
  shows "distinct (map users_email (users db'))"
  using assms
  by (auto simp: initializeDatabase_def Let_def split: if_splits sum.splits
      dest: insert_users_unique)

lemma post_admins_unique:
  assumes "distinct (map users_email (users db))"
  shows "distinct (map users_email (users (fst (post_admins ext db req))))"
  using assms
  by (cases "body req")
    (auto simp: post_admins_def Let_def split: sum.splits dest: insert_users_unique)

lemma delete_admins_unique:
  assumes "distinct (map users_email (users db))"
  shows "distinct (map users_email (users (fst (delete_admins ext db req))))"
  using assms by (simp add: delete_admins_users distinct_map_filter)

end
